theory Spec2Isabelle
  imports Main
begin

section \<open>Serverless traffic filters and their association with projects\<close>

text \<open>
  A shallow embedding of the two resources of the provider:
  package \<open>serverlesstrafficfilterassocresource\<close> (the association of one traffic filter
  with one serverless project) and package \<open>serverlesstrafficfilterresource\<close> (the
  traffic filter itself). The association resource keeps the source's names; the
  functions of the filter resource that share a name with it carry the prefix
  \<open>filter_\<close>.
\<close>

subsection \<open>Diagnostics (terraform-plugin-framework, package diag)\<close>

datatype Severity = SeverityError | SeverityWarning

record Diagnostic =
  Severity :: Severity
  Summary :: string
  Detail :: string

type_synonym Diagnostics = "Diagnostic list"

definition HasError :: "Diagnostics \<Rightarrow> bool" where
  "HasError diags = list_ex (\<lambda>d. Severity d = SeverityError) diags"

text \<open>\<open>Diagnostics.Append\<close> skips a diagnostic that the collection already contains.\<close>

fun Append :: "Diagnostics \<Rightarrow> Diagnostics \<Rightarrow> Diagnostics" where
  "Append diags [] = diags"
| "Append diags (d # ds) = Append (if d \<in> set diags then diags else diags @ [d]) ds"

definition NewErrorDiagnostic :: "string \<Rightarrow> string \<Rightarrow> Diagnostic" where
  "NewErrorDiagnostic summary detail =
     \<lparr>Severity = SeverityError, Summary = summary, Detail = detail\<rparr>"

definition AddError :: "Diagnostics \<Rightarrow> string \<Rightarrow> string \<Rightarrow> Diagnostics" where
  "AddError diags summary detail = Append diags [NewErrorDiagnostic summary detail]"

subsection \<open>Attribute values (package types) and formatting (package fmt)\<close>

datatype tfString = StringNull | StringUnknown | StringValue string

text \<open>\<open>ValueString\<close> is the empty string for a null or unknown value.\<close>

fun ValueString :: "tfString \<Rightarrow> string" where
  "ValueString (StringValue s) = s"
| "ValueString StringNull = []"
| "ValueString StringUnknown = []"

datatype tfBool = BoolNull | BoolUnknown | BoolValue bool

text \<open>The verb \<open>%d\<close> of \<open>fmt.Sprintf\<close>: a decimal numeral, with a minus sign if negative.\<close>

fun digits :: "nat \<Rightarrow> string" where
  "digits n =
     (if n < 10 then [''0123456789'' ! n]
      else digits (n div 10) @ [''0123456789'' ! (n mod 10)])"

declare digits.simps [simp del]

definition Itoa :: "int \<Rightarrow> string" where
  "Itoa i = (if i < 0 then CHR ''-'' # digits (nat (- i)) else digits (nat i))"

text \<open>\<open>fmt.Sprintf("The API request failed with: %d %s\n%s", code, status, body)\<close>\<close>

definition requestFailed :: "int \<Rightarrow> string \<Rightarrow> string \<Rightarrow> string" where
  "requestFailed code status body =
     ''The API request failed with: '' @ Itoa code @ '' '' @ status @ [CHR 0x0A] @ body"

text \<open>
  \<open>strings.Split(s, sep)\<close> for a separator of one byte, which is how the source calls it:
  the pieces between the separators, one more than there are separators (so the empty
  string gives one empty piece).
\<close>

fun Split :: "string \<Rightarrow> char \<Rightarrow> string list" where
  "Split [] sep = [[]]"
| "Split (x # xs) sep =
     (if x = sep then [] # Split xs sep
      else (case Split xs sep of
              [] \<Rightarrow> [[x]]
            | p # ps \<Rightarrow> (x # p) # ps))"

subsection \<open>The generated API client (package serverless)\<close>

text \<open>
  The generated package is not among the sources. The types below hold the fields the
  two resources read or write. The three project kinds have a request and a response
  type each; the code touches the same fields of all three, so one record stands for
  each family, and the kind is kept in the operation that is called.
\<close>

record TrafficFilter =
  tf_Id :: string

record Project =
  project_Id :: string
  project_Name :: string
  TrafficFilters :: "TrafficFilter list option"

record PatchProjectRequest =
  patch_TrafficFilters :: "TrafficFilter list option"

record TrafficFilterRule =
  rule_Source :: string
  rule_Description :: "string option"

record TrafficFilterInfo =
  info_Id :: string
  info_Name :: string
  info_Region :: string
  info_Type :: string
  info_IncludeByDefault :: bool
  info_Description :: "string option"
  info_Rules :: "TrafficFilterRule list"

record http_Response =
  StatusCode :: int
  Status :: string

record 'a APIResponse =
  Body :: string
  HTTPResponse :: "http_Response option"
  JSON200 :: "'a option"

text \<open>
  Modelled from the spec: the accessors \<open>StatusCode()\<close> and \<open>Status()\<close> of a response of
  the generated client, which is missing from the sources. The spec gives a response
  "a status code, an optional decoded success payload, and a raw body"; the accessors
  read the HTTP response when there is one, and give 0 and the empty text otherwise.
\<close>

definition resp_StatusCode :: "'a APIResponse \<Rightarrow> int" where
  "resp_StatusCode r = (case HTTPResponse r of None \<Rightarrow> 0 | Some h \<Rightarrow> StatusCode h)"

definition resp_Status :: "'a APIResponse \<Rightarrow> string" where
  "resp_Status r = (case HTTPResponse r of None \<Rightarrow> [] | Some h \<Rightarrow> Status h)"

text \<open>
  A call of the client has an effect on the server and returns either a transport error
  (its text, \<open>Inl\<close>) or a response. The server is a state \<open>'w\<close> that every call may read
  and change.
\<close>

type_synonym ('a, 'w) api = "'w \<Rightarrow> (string + 'a APIResponse) \<times> 'w"

record 'w ClientWithResponsesInterface =
  GetElasticsearchProjectWithResponse :: "string \<Rightarrow> (Project, 'w) api"
  GetObservabilityProjectWithResponse :: "string \<Rightarrow> (Project, 'w) api"
  GetSecurityProjectWithResponse :: "string \<Rightarrow> (Project, 'w) api"
  PatchElasticsearchProjectWithResponse :: "string \<Rightarrow> PatchProjectRequest \<Rightarrow> (Project, 'w) api"
  PatchObservabilityProjectWithResponse :: "string \<Rightarrow> PatchProjectRequest \<Rightarrow> (Project, 'w) api"
  PatchSecurityProjectWithResponse :: "string \<Rightarrow> PatchProjectRequest \<Rightarrow> (Project, 'w) api"
  GetTrafficFilterWithResponse :: "string \<Rightarrow> (TrafficFilterInfo, 'w) api"
  DeleteTrafficFilterWithResponse :: "string \<Rightarrow> (unit, 'w) api"

text \<open>
  The calls an operation has issued are recorded in order, next to the server's state,
  so that a theorem can say which calls were made and what was sent.
\<close>

datatype Call =
    GetElasticsearchProject string
  | GetObservabilityProject string
  | GetSecurityProject string
  | PatchElasticsearchProject string PatchProjectRequest
  | PatchObservabilityProject string PatchProjectRequest
  | PatchSecurityProject string PatchProjectRequest
  | GetTrafficFilter string
  | DeleteTrafficFilter string

record 'w io =
  world :: 'w
  calls :: "Call list"

definition invoke :: "Call \<Rightarrow> ('a, 'w) api \<Rightarrow> 'w io \<Rightarrow> (string + 'a APIResponse) \<times> 'w io" where
  "invoke c f st =
     (case f (world st) of (res, w) \<Rightarrow> (res, \<lparr>world = w, calls = calls st @ [c]\<rparr>))"

fun isPatch :: "Call \<Rightarrow> bool" where
  "isPatch (PatchElasticsearchProject p q) = True"
| "isPatch (PatchObservabilityProject p q) = True"
| "isPatch (PatchSecurityProject p q) = True"
| "isPatch c = False"

subsection \<open>The framework's requests, responses and state (package tfsdk)\<close>

text \<open>
  The framework is outside the repository. A request carries a plan or a prior state,
  which the code only decodes: \<open>Get(ctx, &model)\<close> fills the model and returns
  diagnostics, and that pair is what a request holds here. A response carries the new
  state and the diagnostics collected so far. The state holds a value of the resource's
  model, or nothing once the resource is removed. Every value the two resources write
  has the type its schema declares (\<open>schema.go\<close>), so writing it returns no diagnostic.
\<close>

record 'm Decoded =
  Get_model :: 'm
  Get_diags :: Diagnostics

record 'm CreateRequest =
  Plan :: "'m Decoded"

record 'm ReadRequest =
  ReadRequest_State :: "'m Decoded"

record 'm DeleteRequest =
  DeleteRequest_State :: "'m Decoded"

record ImportStateRequest =
  ImportStateRequest_ID :: string

record 'm State =
  Raw :: "'m option"

record 'm Response =
  State :: "'m State"
  Diagnostics :: Diagnostics

definition State_Set :: "'m State \<Rightarrow> 'm \<Rightarrow> 'm State \<times> Diagnostics" where
  "State_Set s m = (s\<lparr>Raw := Some m\<rparr>, [])"

definition RemoveResource :: "'m State \<Rightarrow> 'm State" where
  "RemoveResource s = s\<lparr>Raw := None\<rparr>"

record 'w Resource =
  client :: "'w ClientWithResponsesInterface option"

subsection \<open>The association resource: schema.go\<close>

record modelV0 =
  ID :: tfString
  ProjectID :: tfString
  ProjectType :: tfString
  TrafficFilterID :: tfString

datatype path = Root string

text \<open>
  \<open>State.SetAttribute\<close> on the association's schema: the four attributes are strings. On
  a state without a value the framework creates the object, its other attributes null.
  A path outside the schema is an error of the framework.
\<close>

fun SetAttribute :: "modelV0 State \<Rightarrow> path \<Rightarrow> string \<Rightarrow> modelV0 State \<times> Diagnostics" where
  "SetAttribute s (Root p) v =
     (let m = (case Raw s of
                 None \<Rightarrow> \<lparr>ID = StringNull, ProjectID = StringNull,
                           ProjectType = StringNull, TrafficFilterID = StringNull\<rparr>
               | Some m \<Rightarrow> m)
      in if p = ''id'' then (s\<lparr>Raw := Some (m\<lparr>ID := StringValue v\<rparr>)\<rparr>, [])
         else if p = ''project_id'' then (s\<lparr>Raw := Some (m\<lparr>ProjectID := StringValue v\<rparr>)\<rparr>, [])
         else if p = ''project_type'' then (s\<lparr>Raw := Some (m\<lparr>ProjectType := StringValue v\<rparr>)\<rparr>, [])
         else if p = ''traffic_filter_id'' then
           (s\<lparr>Raw := Some (m\<lparr>TrafficFilterID := StringValue v\<rparr>)\<rparr>, [])
         else (s, [NewErrorDiagnostic ''State Write Error'' p]))"

subsection \<open>The association resource: resource.go\<close>

definition resourceReady :: "'w Resource \<Rightarrow> Diagnostics \<Rightarrow> bool \<times> Diagnostics" where
  "resourceReady r dg =
     (if client r = None then
        (False, AddError dg ''Unconfigured API Client''
           ''Expected configured API client. Please report this issue to the provider developers.'')
      else (True, dg))"

text \<open>
  \<open>getProjectTrafficFilters\<close> retrieves the current traffic filters of a project. The
  source has one branch for each project type, and so has the model. A call through a
  nil client panics (\<open>None\<close>); the default branch does not touch the client.
\<close>

definition getProjectTrafficFilters ::
  "'w Resource \<Rightarrow> string \<Rightarrow> string \<Rightarrow> 'w io \<Rightarrow> ((TrafficFilter list \<times> Diagnostics) \<times> 'w io) option" where
  "getProjectTrafficFilters r projectID projectType st =
     (let diags = [] in
      if projectType = ''elasticsearch'' then
        (case client r of
           None \<Rightarrow> None
         | Some c \<Rightarrow>
            (case invoke (GetElasticsearchProject projectID)
                    (GetElasticsearchProjectWithResponse c projectID) st of
               (Inl err, st') \<Rightarrow> Some (([], AddError diags ''Failed to read project'' err), st')
             | (Inr resp, st') \<Rightarrow>
                 if (case HTTPResponse resp of None \<Rightarrow> False | Some h \<Rightarrow> StatusCode h = 404) then
                   Some (([], AddError diags ''Project not found''
                            (''Elasticsearch project '' @ projectID @ '' not found'')), st')
                 else (case JSON200 resp of
                         None \<Rightarrow>
                           Some (([], AddError diags ''Failed to read project''
                                    (requestFailed (resp_StatusCode resp) (resp_Status resp) (Body resp))), st')
                       | Some p \<Rightarrow>
                           (case TrafficFilters p of
                              None \<Rightarrow> Some (([], []), st')
                            | Some fs \<Rightarrow> Some ((fs, []), st')))))
      else if projectType = ''observability'' then
        (case client r of
           None \<Rightarrow> None
         | Some c \<Rightarrow>
            (case invoke (GetObservabilityProject projectID)
                    (GetObservabilityProjectWithResponse c projectID) st of
               (Inl err, st') \<Rightarrow> Some (([], AddError diags ''Failed to read project'' err), st')
             | (Inr resp, st') \<Rightarrow>
                 if (case HTTPResponse resp of None \<Rightarrow> False | Some h \<Rightarrow> StatusCode h = 404) then
                   Some (([], AddError diags ''Project not found''
                            (''Observability project '' @ projectID @ '' not found'')), st')
                 else (case JSON200 resp of
                         None \<Rightarrow>
                           Some (([], AddError diags ''Failed to read project''
                                    (requestFailed (resp_StatusCode resp) (resp_Status resp) (Body resp))), st')
                       | Some p \<Rightarrow>
                           (case TrafficFilters p of
                              None \<Rightarrow> Some (([], []), st')
                            | Some fs \<Rightarrow> Some ((fs, []), st')))))
      else if projectType = ''security'' then
        (case client r of
           None \<Rightarrow> None
         | Some c \<Rightarrow>
            (case invoke (GetSecurityProject projectID)
                    (GetSecurityProjectWithResponse c projectID) st of
               (Inl err, st') \<Rightarrow> Some (([], AddError diags ''Failed to read project'' err), st')
             | (Inr resp, st') \<Rightarrow>
                 if (case HTTPResponse resp of None \<Rightarrow> False | Some h \<Rightarrow> StatusCode h = 404) then
                   Some (([], AddError diags ''Project not found''
                            (''Security project '' @ projectID @ '' not found'')), st')
                 else (case JSON200 resp of
                         None \<Rightarrow>
                           Some (([], AddError diags ''Failed to read project''
                                    (requestFailed (resp_StatusCode resp) (resp_Status resp) (Body resp))), st')
                       | Some p \<Rightarrow>
                           (case TrafficFilters p of
                              None \<Rightarrow> Some (([], []), st')
                            | Some fs \<Rightarrow> Some ((fs, []), st')))))
      else Some (([], AddError diags ''Invalid project type''
                    (''Unknown project type: '' @ projectType)), st))"

text \<open>\<open>patchProjectTrafficFilters\<close> updates the traffic filters of a project.\<close>

definition patchProjectTrafficFilters ::
  "'w Resource \<Rightarrow> string \<Rightarrow> string \<Rightarrow> TrafficFilter list \<Rightarrow> 'w io \<Rightarrow> (Diagnostics \<times> 'w io) option" where
  "patchProjectTrafficFilters r projectID projectType filters st =
     (let diags = []; trafficFilters = filters in
      if projectType = ''elasticsearch'' then
        (case client r of
           None \<Rightarrow> None
         | Some c \<Rightarrow>
            (let patchReq = \<lparr>patch_TrafficFilters = Some trafficFilters\<rparr> in
             case invoke (PatchElasticsearchProject projectID patchReq)
                    (PatchElasticsearchProjectWithResponse c projectID patchReq) st of
               (Inl err, st') \<Rightarrow> Some (AddError diags ''Failed to update project'' err, st')
             | (Inr resp, st') \<Rightarrow>
                 (case JSON200 resp of
                    None \<Rightarrow>
                      Some (AddError diags ''Failed to update project''
                              (requestFailed (resp_StatusCode resp) (resp_Status resp) (Body resp)), st')
                  | Some p \<Rightarrow> Some (diags, st'))))
      else if projectType = ''observability'' then
        (case client r of
           None \<Rightarrow> None
         | Some c \<Rightarrow>
            (let patchReq = \<lparr>patch_TrafficFilters = Some trafficFilters\<rparr> in
             case invoke (PatchObservabilityProject projectID patchReq)
                    (PatchObservabilityProjectWithResponse c projectID patchReq) st of
               (Inl err, st') \<Rightarrow> Some (AddError diags ''Failed to update project'' err, st')
             | (Inr resp, st') \<Rightarrow>
                 (case JSON200 resp of
                    None \<Rightarrow>
                      Some (AddError diags ''Failed to update project''
                              (requestFailed (resp_StatusCode resp) (resp_Status resp) (Body resp)), st')
                  | Some p \<Rightarrow> Some (diags, st'))))
      else if projectType = ''security'' then
        (case client r of
           None \<Rightarrow> None
         | Some c \<Rightarrow>
            (let patchReq = \<lparr>patch_TrafficFilters = Some trafficFilters\<rparr> in
             case invoke (PatchSecurityProject projectID patchReq)
                    (PatchSecurityProjectWithResponse c projectID patchReq) st of
               (Inl err, st') \<Rightarrow> Some (AddError diags ''Failed to update project'' err, st')
             | (Inr resp, st') \<Rightarrow>
                 (case JSON200 resp of
                    None \<Rightarrow>
                      Some (AddError diags ''Failed to update project''
                              (requestFailed (resp_StatusCode resp) (resp_Status resp) (Body resp)), st')
                  | Some p \<Rightarrow> Some (diags, st'))))
      else Some (AddError diags ''Invalid project type''
                   (''Unknown project type: '' @ projectType), st))"

text \<open>
  The loop of \<open>Create\<close> and \<open>Read\<close> over the current filters, which stops at the first
  filter with the wanted id.
\<close>

fun hasFilter :: "TrafficFilter list \<Rightarrow> string \<Rightarrow> bool" where
  "hasFilter [] trafficFilterID = False"
| "hasFilter (f # fs) trafficFilterID =
     (if tf_Id f = trafficFilterID then True else hasFilter fs trafficFilterID)"

text \<open>The loop of \<open>Delete\<close>, which appends to \<open>newFilters\<close> every filter with another id.\<close>

fun withoutFilter :: "TrafficFilter list \<Rightarrow> TrafficFilter list \<Rightarrow> string \<Rightarrow> TrafficFilter list" where
  "withoutFilter newFilters [] trafficFilterID = newFilters"
| "withoutFilter newFilters (f # fs) trafficFilterID =
     withoutFilter (if tf_Id f \<noteq> trafficFilterID then newFilters @ [f] else newFilters)
       fs trafficFilterID"

definition Create ::
  "'w Resource \<Rightarrow> modelV0 CreateRequest \<Rightarrow> modelV0 Response \<Rightarrow> 'w io \<Rightarrow> (modelV0 Response \<times> 'w io) option" where
  "Create r req resp st =
     (case resourceReady r (Diagnostics resp) of
        (ready, dg) \<Rightarrow>
          (let resp = resp\<lparr>Diagnostics := dg\<rparr> in
           if \<not> ready then Some (resp, st)
           else
             (let model = Get_model (Plan req);
                  resp = resp\<lparr>Diagnostics := Append (Diagnostics resp) (Get_diags (Plan req))\<rparr>
              in if HasError (Diagnostics resp) then Some (resp, st)
                 else
                   (let projectID = ValueString (ProjectID model);
                        projectType = ValueString (ProjectType model);
                        trafficFilterID = ValueString (TrafficFilterID model)
                    in case getProjectTrafficFilters r projectID projectType st of
                         None \<Rightarrow> None
                       | Some ((currentFilters, diags), st1) \<Rightarrow>
                           (let resp = resp\<lparr>Diagnostics := Append (Diagnostics resp) diags\<rparr>
                            in if HasError (Diagnostics resp) then Some (resp, st1)
                               else if hasFilter currentFilters trafficFilterID then
                                 (let model = model\<lparr>ID := StringValue (projectID @ ''-'' @ trafficFilterID)\<rparr>
                                  in case State_Set (State resp) model of
                                       (s, ds) \<Rightarrow>
                                         Some (resp\<lparr>State := s,
                                                 Diagnostics := Append (Diagnostics resp) ds\<rparr>, st1))
                               else
                                 (let newFilters = currentFilters @ [\<lparr>tf_Id = trafficFilterID\<rparr>]
                                  in case patchProjectTrafficFilters r projectID projectType newFilters st1 of
                                       None \<Rightarrow> None
                                     | Some (diags, st2) \<Rightarrow>
                                         (let resp = resp\<lparr>Diagnostics := Append (Diagnostics resp) diags\<rparr>
                                          in if HasError (Diagnostics resp) then Some (resp, st2)
                                             else
                                               (let model = model\<lparr>ID := StringValue (projectID @ ''-'' @ trafficFilterID)\<rparr>
                                                in case State_Set (State resp) model of
                                                     (s, ds) \<Rightarrow>
                                                       Some (resp\<lparr>State := s,
                                                               Diagnostics := Append (Diagnostics resp) ds\<rparr>, st2)))))))))"

definition Read ::
  "'w Resource \<Rightarrow> modelV0 ReadRequest \<Rightarrow> modelV0 Response \<Rightarrow> 'w io \<Rightarrow> (modelV0 Response \<times> 'w io) option" where
  "Read r req resp st =
     (case resourceReady r (Diagnostics resp) of
        (ready, dg) \<Rightarrow>
          (let resp = resp\<lparr>Diagnostics := dg\<rparr> in
           if \<not> ready then Some (resp, st)
           else
             (let model = Get_model (ReadRequest_State req);
                  resp = resp\<lparr>Diagnostics := Append (Diagnostics resp) (Get_diags (ReadRequest_State req))\<rparr>
              in if HasError (Diagnostics resp) then Some (resp, st)
                 else
                   (let projectID = ValueString (ProjectID model);
                        projectType = ValueString (ProjectType model);
                        trafficFilterID = ValueString (TrafficFilterID model)
                    in case getProjectTrafficFilters r projectID projectType st of
                         None \<Rightarrow> None
                       | Some ((currentFilters, diags), st1) \<Rightarrow>
                           (let resp = resp\<lparr>Diagnostics := Append (Diagnostics resp) diags\<rparr>
                            in if HasError (Diagnostics resp) then Some (resp, st1)
                               else
                                 (let found = hasFilter currentFilters trafficFilterID
                                  in if \<not> found then
                                       Some (resp\<lparr>State := RemoveResource (State resp)\<rparr>, st1)
                                     else
                                       (case State_Set (State resp) model of
                                          (s, ds) \<Rightarrow>
                                            Some (resp\<lparr>State := s,
                                                    Diagnostics := Append (Diagnostics resp) ds\<rparr>, st1))))))))"

definition Update :: "modelV0 Response \<Rightarrow> modelV0 Response" where
  "Update resp =
     resp\<lparr>Diagnostics := AddError (Diagnostics resp) ''Update not supported''
       ''All attributes of this resource require replacement. This is a bug in the provider.''\<rparr>"

definition Delete ::
  "'w Resource \<Rightarrow> modelV0 DeleteRequest \<Rightarrow> modelV0 Response \<Rightarrow> 'w io \<Rightarrow> (modelV0 Response \<times> 'w io) option" where
  "Delete r req resp st =
     (case resourceReady r (Diagnostics resp) of
        (ready, dg) \<Rightarrow>
          (let resp = resp\<lparr>Diagnostics := dg\<rparr> in
           if \<not> ready then Some (resp, st)
           else
             (let model = Get_model (DeleteRequest_State req);
                  resp = resp\<lparr>Diagnostics := Append (Diagnostics resp) (Get_diags (DeleteRequest_State req))\<rparr>
              in if HasError (Diagnostics resp) then Some (resp, st)
                 else
                   (let projectID = ValueString (ProjectID model);
                        projectType = ValueString (ProjectType model);
                        trafficFilterID = ValueString (TrafficFilterID model)
                    in case getProjectTrafficFilters r projectID projectType st of
                         None \<Rightarrow> None
                       | Some ((currentFilters, diags), st1) \<Rightarrow>
                           (let resp = resp\<lparr>Diagnostics := Append (Diagnostics resp) diags\<rparr>
                            in if HasError (Diagnostics resp) then Some (resp, st1)
                               else
                                 (let newFilters = withoutFilter [] currentFilters trafficFilterID
                                  in case patchProjectTrafficFilters r projectID projectType newFilters st1 of
                                       None \<Rightarrow> None
                                     | Some (diags, st2) \<Rightarrow>
                                         Some (resp\<lparr>Diagnostics := Append (Diagnostics resp) diags\<rparr>, st2)))))))"

definition ImportState ::
  "'w Resource \<Rightarrow> ImportStateRequest \<Rightarrow> modelV0 Response \<Rightarrow> 'w io \<Rightarrow> (modelV0 Response \<times> 'w io) option" where
  "ImportState r req resp st =
     (let parts = Split (ImportStateRequest_ID req) CHR '','' in
      if length parts \<noteq> 3 then
        Some (resp\<lparr>Diagnostics := AddError (Diagnostics resp) ''Invalid import ID''
                (''Expected format: project_id,project_type,traffic_filter_id. Got: ''
                   @ ImportStateRequest_ID req)\<rparr>, st)
      else
        (let projectID = parts ! 0;
             projectType = parts ! 1;
             trafficFilterID = parts ! 2
         in if projectType \<noteq> ''elasticsearch'' \<and> projectType \<noteq> ''observability''
               \<and> projectType \<noteq> ''security'' then
              Some (resp\<lparr>Diagnostics := AddError (Diagnostics resp) ''Invalid project type''
                      (''project_type must be one of: elasticsearch, observability, security. Got: ''
                         @ projectType)\<rparr>, st)
            else
              (case SetAttribute (State resp) (Root ''id'') (projectID @ ''-'' @ trafficFilterID) of
                 (s1, d1) \<Rightarrow>
                   (let resp = resp\<lparr>State := s1, Diagnostics := Append (Diagnostics resp) d1\<rparr> in
                    case SetAttribute (State resp) (Root ''project_id'') projectID of
                      (s2, d2) \<Rightarrow>
                        (let resp = resp\<lparr>State := s2, Diagnostics := Append (Diagnostics resp) d2\<rparr> in
                         case SetAttribute (State resp) (Root ''project_type'') projectType of
                           (s3, d3) \<Rightarrow>
                             (let resp = resp\<lparr>State := s3, Diagnostics := Append (Diagnostics resp) d3\<rparr> in
                              case SetAttribute (State resp) (Root ''traffic_filter_id'') trafficFilterID of
                                (s4, d4) \<Rightarrow>
                                  Some (resp\<lparr>State := s4,
                                          Diagnostics := Append (Diagnostics resp) d4\<rparr>, st)))))))"

subsection \<open>The traffic filter resource\<close>

record TrafficFilterRuleModel =
  rm_Source :: tfString
  rm_Description :: tfString

record TrafficFilterModel =
  tfm_ID :: tfString
  tfm_Name :: tfString
  tfm_Type :: tfString
  tfm_Region :: tfString
  tfm_Description :: tfString
  tfm_IncludeByDefault :: tfBool
  tfm_Rules :: "TrafficFilterRuleModel list"

definition stringValue :: "string \<Rightarrow> tfString" where
  "stringValue s = StringValue s"

definition boolValue :: "bool \<Rightarrow> tfBool" where
  "boolValue b = BoolValue b"

text \<open>The loop of \<open>modelFromResponse\<close> over the rules of the response.\<close>

fun rulesFromResponse :: "TrafficFilterRuleModel list \<Rightarrow> TrafficFilterRule list \<Rightarrow> TrafficFilterRuleModel list" where
  "rulesFromResponse acc [] = acc"
| "rulesFromResponse acc (rule # rules) =
     rulesFromResponse
       (acc @ [\<lparr>rm_Source = stringValue (rule_Source rule),
                rm_Description =
                  (case rule_Description rule of
                     None \<Rightarrow> StringNull
                   | Some d \<Rightarrow> if d \<noteq> [] then stringValue d else StringNull)\<rparr>])
       rules"

definition modelFromResponse :: "TrafficFilterInfo \<Rightarrow> TrafficFilterModel" where
  "modelFromResponse info =
     \<lparr>tfm_ID = stringValue (info_Id info),
      tfm_Name = stringValue (info_Name info),
      tfm_Type = stringValue (info_Type info),
      tfm_Region = stringValue (info_Region info),
      tfm_Description =
        (case info_Description info of
           None \<Rightarrow> StringNull
         | Some d \<Rightarrow> if d \<noteq> [] then stringValue d else StringNull),
      tfm_IncludeByDefault = boolValue (info_IncludeByDefault info),
      tfm_Rules =
        (if length (info_Rules info) > 0 then rulesFromResponse [] (info_Rules info) else [])\<rparr>"

text \<open>\<open>Read\<close> and \<open>Delete\<close> of the filter resource; neither checks that the client is configured.\<close>

definition filter_Read ::
  "'w Resource \<Rightarrow> TrafficFilterModel ReadRequest \<Rightarrow> TrafficFilterModel Response \<Rightarrow> 'w io
     \<Rightarrow> (TrafficFilterModel Response \<times> 'w io) option" where
  "filter_Read r req resp st =
     (let model = Get_model (ReadRequest_State req);
          resp = resp\<lparr>Diagnostics := Append (Diagnostics resp) (Get_diags (ReadRequest_State req))\<rparr>
      in if HasError (Diagnostics resp) then Some (resp, st)
         else
           (case client r of
              None \<Rightarrow> None
            | Some c \<Rightarrow>
               (case invoke (GetTrafficFilter (ValueString (tfm_ID model)))
                       (GetTrafficFilterWithResponse c (ValueString (tfm_ID model))) st of
                  (Inl err, st1) \<Rightarrow>
                    Some (resp\<lparr>Diagnostics :=
                            AddError (Diagnostics resp) ''Failed to read traffic filter'' err\<rparr>, st1)
                | (Inr readResp, st1) \<Rightarrow>
                    if (case HTTPResponse readResp of None \<Rightarrow> False | Some h \<Rightarrow> StatusCode h = 404) then
                      Some (resp\<lparr>State := RemoveResource (State resp)\<rparr>, st1)
                    else
                      (case JSON200 readResp of
                         None \<Rightarrow>
                           Some (resp\<lparr>Diagnostics :=
                                   AddError (Diagnostics resp) ''Failed to read traffic filter''
                                     (requestFailed (resp_StatusCode readResp) (resp_Status readResp)
                                        (Body readResp))\<rparr>, st1)
                       | Some info \<Rightarrow>
                           (case State_Set (State resp) (modelFromResponse info) of
                              (s, ds) \<Rightarrow>
                                Some (resp\<lparr>State := s,
                                        Diagnostics := Append (Diagnostics resp) ds\<rparr>, st1))))))"

definition filter_Delete ::
  "'w Resource \<Rightarrow> TrafficFilterModel DeleteRequest \<Rightarrow> TrafficFilterModel Response \<Rightarrow> 'w io
     \<Rightarrow> (TrafficFilterModel Response \<times> 'w io) option" where
  "filter_Delete r req resp st =
     (let model = Get_model (DeleteRequest_State req);
          resp = resp\<lparr>Diagnostics := Append (Diagnostics resp) (Get_diags (DeleteRequest_State req))\<rparr>
      in if HasError (Diagnostics resp) then Some (resp, st)
         else
           (case client r of
              None \<Rightarrow> None
            | Some c \<Rightarrow>
               (case invoke (DeleteTrafficFilter (ValueString (tfm_ID model)))
                       (DeleteTrafficFilterWithResponse c (ValueString (tfm_ID model))) st of
                  (Inl err, st1) \<Rightarrow>
                    Some (resp\<lparr>Diagnostics :=
                            AddError (Diagnostics resp) ''Failed to delete traffic filter'' err\<rparr>, st1)
                | (Inr deleteResp, st1) \<Rightarrow>
                    (let statusCode = resp_StatusCode deleteResp in
                     if statusCode \<noteq> 200 \<and> statusCode \<noteq> 204 \<and> statusCode \<noteq> 404 then
                       Some (resp\<lparr>Diagnostics :=
                               AddError (Diagnostics resp) ''Failed to delete traffic filter''
                                 (requestFailed (resp_StatusCode deleteResp) (resp_Status deleteResp)
                                    (Body deleteResp))\<rparr>, st1)
                     else Some (resp, st1)))))"

subsection \<open>Dispatch by project kind, as the specification describes it\<close>

text \<open>
  The specification asks for "one polymorphic operation over a capability set
  {GetMembership(projectID), PatchMembership(projectID, set)} with three concrete
  implementations selected by projectKind". The definitions of this subsection follow
  those words, to be compared with the three branches of the source: a capability is
  the pair of transport operations of one kind, with the name the kind has in messages.
\<close>

record 'w Capability =
  kindName :: string
  GetProject :: "string \<Rightarrow> (Project, 'w) api"
  GetProjectCall :: "string \<Rightarrow> Call"
  PatchProject :: "string \<Rightarrow> PatchProjectRequest \<Rightarrow> (Project, 'w) api"
  PatchProjectCall :: "string \<Rightarrow> PatchProjectRequest \<Rightarrow> Call"

definition capabilityOf :: "'w ClientWithResponsesInterface \<Rightarrow> string \<Rightarrow> 'w Capability option" where
  "capabilityOf c projectType =
     (if projectType = ''elasticsearch'' then
        Some \<lparr>kindName = ''Elasticsearch'',
              GetProject = GetElasticsearchProjectWithResponse c,
              GetProjectCall = GetElasticsearchProject,
              PatchProject = PatchElasticsearchProjectWithResponse c,
              PatchProjectCall = PatchElasticsearchProject\<rparr>
      else if projectType = ''observability'' then
        Some \<lparr>kindName = ''Observability'',
              GetProject = GetObservabilityProjectWithResponse c,
              GetProjectCall = GetObservabilityProject,
              PatchProject = PatchObservabilityProjectWithResponse c,
              PatchProjectCall = PatchObservabilityProject\<rparr>
      else if projectType = ''security'' then
        Some \<lparr>kindName = ''Security'',
              GetProject = GetSecurityProjectWithResponse c,
              GetProjectCall = GetSecurityProject,
              PatchProject = PatchSecurityProjectWithResponse c,
              PatchProjectCall = PatchSecurityProject\<rparr>
      else None)"

text \<open>A response with an HTTP response of status 404.\<close>

definition isNotFound :: "string + 'a APIResponse \<Rightarrow> bool" where
  "isNotFound res =
     (case res of
        Inl err \<Rightarrow> False
      | Inr resp \<Rightarrow> (case HTTPResponse resp of None \<Rightarrow> False | Some h \<Rightarrow> StatusCode h = 404))"

text \<open>The membership and the diagnostics of a read, as a function of the transport's answer.\<close>

definition membershipOf ::
  "string \<Rightarrow> string \<Rightarrow> string + Project APIResponse \<Rightarrow> TrafficFilter list \<times> Diagnostics" where
  "membershipOf name projectID res =
     (case res of
        Inl err \<Rightarrow> ([], [NewErrorDiagnostic ''Failed to read project'' err])
      | Inr resp \<Rightarrow>
          if isNotFound res then
            ([], [NewErrorDiagnostic ''Project not found''
                    (name @ '' project '' @ projectID @ '' not found'')])
          else (case JSON200 resp of
                  None \<Rightarrow>
                    ([], [NewErrorDiagnostic ''Failed to read project''
                            (requestFailed (resp_StatusCode resp) (resp_Status resp) (Body resp))])
                | Some p \<Rightarrow> (case TrafficFilters p of None \<Rightarrow> ([], []) | Some fs \<Rightarrow> (fs, []))))"

definition GetMembership ::
  "'w Capability \<Rightarrow> string \<Rightarrow> 'w io \<Rightarrow> (TrafficFilter list \<times> Diagnostics) \<times> 'w io" where
  "GetMembership cap projectID st =
     (case invoke (GetProjectCall cap projectID) (GetProject cap projectID) st of
        (res, st') \<Rightarrow> (membershipOf (kindName cap) projectID res, st'))"

text \<open>The diagnostics of a patch, as a function of the transport's answer.\<close>

definition patchAck :: "string + Project APIResponse \<Rightarrow> Diagnostics" where
  "patchAck res =
     (case res of
        Inl err \<Rightarrow> [NewErrorDiagnostic ''Failed to update project'' err]
      | Inr resp \<Rightarrow>
          (case JSON200 resp of
             None \<Rightarrow>
               [NewErrorDiagnostic ''Failed to update project''
                  (requestFailed (resp_StatusCode resp) (resp_Status resp) (Body resp))]
           | Some p \<Rightarrow> []))"

definition PatchMembership ::
  "'w Capability \<Rightarrow> string \<Rightarrow> TrafficFilter list \<Rightarrow> 'w io \<Rightarrow> Diagnostics \<times> 'w io" where
  "PatchMembership cap projectID filters st =
     (case invoke (PatchProjectCall cap projectID \<lparr>patch_TrafficFilters = Some filters\<rparr>)
             (PatchProject cap projectID \<lparr>patch_TrafficFilters = Some filters\<rparr>) st of
        (res, st') \<Rightarrow> (patchAck res, st'))"

text \<open>What a recorded call sent: the filters of a patch and the project it went to.\<close>

fun sentFilters :: "Call \<Rightarrow> TrafficFilter list option" where
  "sentFilters (PatchElasticsearchProject p q) = patch_TrafficFilters q"
| "sentFilters (PatchObservabilityProject p q) = patch_TrafficFilters q"
| "sentFilters (PatchSecurityProject p q) = patch_TrafficFilters q"
| "sentFilters c = None"

fun patchedProject :: "Call \<Rightarrow> string option" where
  "patchedProject (PatchElasticsearchProject p q) = Some p"
| "patchedProject (PatchObservabilityProject p q) = Some p"
| "patchedProject (PatchSecurityProject p q) = Some p"
| "patchedProject c = None"

subsection \<open>A server to run the operations against\<close>

text \<open>
  A small server in the manner of the mock client of \<open>resource_test.go\<close>: it holds the
  projects by id, answers a read of a project it does not hold with the status 404, and
  replaces the filters of a project on a patch. The answers for the filter entity are
  parameters.
\<close>

type_synonym server = "(string \<times> Project) list"

definition notFoundResponse :: "'a APIResponse" where
  "notFoundResponse =
     \<lparr>Body = ''not found'',
      HTTPResponse = Some \<lparr>StatusCode = 404, Status = ''404 Not Found''\<rparr>,
      JSON200 = None\<rparr>"

definition okResponse :: "'a \<Rightarrow> 'a APIResponse" where
  "okResponse x =
     \<lparr>Body = [], HTTPResponse = Some \<lparr>StatusCode = 200, Status = ''200 OK''\<rparr>, JSON200 = Some x\<rparr>"

definition statusResponse :: "int \<Rightarrow> string \<Rightarrow> string \<Rightarrow> 'a APIResponse" where
  "statusResponse code line body =
     \<lparr>Body = body, HTTPResponse = Some \<lparr>StatusCode = code, Status = line\<rparr>, JSON200 = None\<rparr>"

definition serverGet :: "string \<Rightarrow> (Project, server) api" where
  "serverGet projectID w =
     (case map_of w projectID of
        None \<Rightarrow> (Inr notFoundResponse, w)
      | Some p \<Rightarrow> (Inr (okResponse p), w))"

definition serverPatch :: "string \<Rightarrow> PatchProjectRequest \<Rightarrow> (Project, server) api" where
  "serverPatch projectID q w =
     (case map_of w projectID of
        None \<Rightarrow> (Inr notFoundResponse, w)
      | Some p \<Rightarrow>
          (Inr (okResponse (p\<lparr>TrafficFilters := patch_TrafficFilters q\<rparr>)),
           (projectID, p\<lparr>TrafficFilters := patch_TrafficFilters q\<rparr>) # w))"

definition serverClient ::
  "TrafficFilterInfo APIResponse \<Rightarrow> unit APIResponse \<Rightarrow> server ClientWithResponsesInterface" where
  "serverClient filterAnswer deleteAnswer =
     \<lparr>GetElasticsearchProjectWithResponse = serverGet,
      GetObservabilityProjectWithResponse = serverGet,
      GetSecurityProjectWithResponse = serverGet,
      PatchElasticsearchProjectWithResponse = serverPatch,
      PatchObservabilityProjectWithResponse = serverPatch,
      PatchSecurityProjectWithResponse = serverPatch,
      GetTrafficFilterWithResponse = (\<lambda>i w. (Inr filterAnswer, w)),
      DeleteTrafficFilterWithResponse = (\<lambda>i w. (Inr deleteAnswer, w))\<rparr>"

definition configured :: "server Resource" where
  "configured = \<lparr>client = Some (serverClient notFoundResponse (statusResponse 204 ''204 No Content'' []))\<rparr>"

definition serverProject :: "string \<Rightarrow> string list option \<Rightarrow> string \<times> Project" where
  "serverProject projectID ids =
     (projectID,
      \<lparr>project_Id = projectID, project_Name = ''test-project'',
       TrafficFilters = map_option (map (\<lambda>i. \<lparr>tf_Id = i\<rparr>)) ids\<rparr>)"

definition startIO :: "server \<Rightarrow> server io" where
  "startIO w = \<lparr>world = w, calls = []\<rparr>"

definition association :: "string \<Rightarrow> string \<Rightarrow> string \<Rightarrow> modelV0" where
  "association projectID projectType trafficFilterID =
     \<lparr>ID = StringValue (projectID @ ''-'' @ trafficFilterID),
      ProjectID = StringValue projectID,
      ProjectType = StringValue projectType,
      TrafficFilterID = StringValue trafficFilterID\<rparr>"

definition planned :: "string \<Rightarrow> string \<Rightarrow> string \<Rightarrow> modelV0" where
  "planned projectID projectType trafficFilterID =
     \<lparr>ID = StringUnknown,
      ProjectID = StringValue projectID,
      ProjectType = StringValue projectType,
      TrafficFilterID = StringValue trafficFilterID\<rparr>"

definition decoded :: "'m \<Rightarrow> 'm Decoded" where
  "decoded m = \<lparr>Get_model = m, Get_diags = []\<rparr>"

definition emptyResponse :: "'m Response" where
  "emptyResponse = \<lparr>State = \<lparr>Raw = None\<rparr>, Diagnostics = []\<rparr>"

definition trackingResponse :: "'m \<Rightarrow> 'm Response" where
  "trackingResponse m = \<lparr>State = \<lparr>Raw = Some m\<rparr>, Diagnostics = []\<rparr>"

section \<open>Properties\<close>

subsection \<open>Diagnostics\<close>

lemma set_Append: "set (Append a b) = set a \<union> set b"
  by (induction b arbitrary: a) auto

lemma HasError_iff: "HasError ds \<longleftrightarrow> (\<exists>d\<in>set ds. Severity d = SeverityError)"
  by (simp add: HasError_def list_ex_iff)

lemma HasError_Append: "HasError (Append a b) \<longleftrightarrow> HasError a \<or> HasError b"
  by (auto simp: HasError_iff set_Append)

lemma HasError_NewErrorDiagnostic: "HasError [NewErrorDiagnostic s t]"
  by (simp add: HasError_def NewErrorDiagnostic_def)

lemma HasError_AddError: "HasError (AddError ds s t)"
  by (simp only: AddError_def HasError_Append HasError_NewErrorDiagnostic simp_thms)

lemma HasError_Nil: "\<not> HasError []"
  by (simp add: HasError_def)

lemma AddError_Nil: "AddError [] s t = [NewErrorDiagnostic s t]"
  by (simp add: AddError_def)

subsection \<open>The branches of the source against the dispatch of the specification\<close>

text \<open>
  Each branch of \<open>getProjectTrafficFilters\<close> is \<open>membershipOf\<close> applied to the answer of its own
  read operation, and each branch of \<open>patchProjectTrafficFilters\<close> is \<open>patchAck\<close> applied to the
  answer of its own patch operation: the source refines \<open>GetMembership\<close> and
  \<open>PatchMembership\<close>.
\<close>

lemma capabilityOf_cases:
  assumes "capabilityOf c projectType = Some cap"
  obtains
    (elasticsearch) "projectType = ''elasticsearch''"
      "cap = \<lparr>kindName = ''Elasticsearch'',
              GetProject = GetElasticsearchProjectWithResponse c,
              GetProjectCall = GetElasticsearchProject,
              PatchProject = PatchElasticsearchProjectWithResponse c,
              PatchProjectCall = PatchElasticsearchProject\<rparr>"
  | (observability) "projectType = ''observability''"
      "cap = \<lparr>kindName = ''Observability'',
              GetProject = GetObservabilityProjectWithResponse c,
              GetProjectCall = GetObservabilityProject,
              PatchProject = PatchObservabilityProjectWithResponse c,
              PatchProjectCall = PatchObservabilityProject\<rparr>"
  | (security) "projectType = ''security''"
      "cap = \<lparr>kindName = ''Security'',
              GetProject = GetSecurityProjectWithResponse c,
              GetProjectCall = GetSecurityProject,
              PatchProject = PatchSecurityProjectWithResponse c,
              PatchProjectCall = PatchSecurityProject\<rparr>"
  using assms unfolding capabilityOf_def by (auto split: if_splits)

lemma membership_branch:
  "(case res of
      Inl err \<Rightarrow> Some (([], AddError [] ''Failed to read project'' err), st')
    | Inr resp \<Rightarrow>
        if (case HTTPResponse resp of None \<Rightarrow> False | Some h \<Rightarrow> StatusCode h = 404) then
          Some (([], AddError [] ''Project not found'' (name @ '' project '' @ projectID @ '' not found'')), st')
        else (case JSON200 resp of
                None \<Rightarrow>
                  Some (([], AddError [] ''Failed to read project''
                           (requestFailed (resp_StatusCode resp) (resp_Status resp) (Body resp))), st')
              | Some p \<Rightarrow>
                  (case TrafficFilters p of
                     None \<Rightarrow> Some (([], []), st')
                   | Some fs \<Rightarrow> Some ((fs, []), st'))))
   = Some (membershipOf name projectID res, st')"
  by (simp add: membershipOf_def isNotFound_def AddError_Nil split: sum.splits option.splits)

lemma getProjectTrafficFilters_elasticsearch:
  "client r = Some c \<Longrightarrow>
   getProjectTrafficFilters r projectID ''elasticsearch'' st =
     (case invoke (GetElasticsearchProject projectID) (GetElasticsearchProjectWithResponse c projectID) st of
        (res, st') \<Rightarrow> Some (membershipOf ''Elasticsearch'' projectID res, st'))"
  unfolding getProjectTrafficFilters_def Let_def
  by (simp add: membership_branch [where name = "''Elasticsearch''", simplified, symmetric] split: prod.splits sum.splits)


lemma getProjectTrafficFilters_observability:
  "client r = Some c \<Longrightarrow>
   getProjectTrafficFilters r projectID ''observability'' st =
     (case invoke (GetObservabilityProject projectID) (GetObservabilityProjectWithResponse c projectID) st of
        (res, st') \<Rightarrow> Some (membershipOf ''Observability'' projectID res, st'))"
  unfolding getProjectTrafficFilters_def Let_def
  by (simp add: membership_branch [where name = "''Observability''", simplified, symmetric] split: prod.splits sum.splits)

lemma getProjectTrafficFilters_security:
  "client r = Some c \<Longrightarrow>
   getProjectTrafficFilters r projectID ''security'' st =
     (case invoke (GetSecurityProject projectID) (GetSecurityProjectWithResponse c projectID) st of
        (res, st') \<Rightarrow> Some (membershipOf ''Security'' projectID res, st'))"
  unfolding getProjectTrafficFilters_def Let_def
  by (simp add: membership_branch [where name = "''Security''", simplified, symmetric] split: prod.splits sum.splits)

lemma getProjectTrafficFilters_dispatch:
  assumes "client r = Some c" and "capabilityOf c projectType = Some cap"
  shows "getProjectTrafficFilters r projectID projectType st = Some (GetMembership cap projectID st)"
  using assms(2)
proof (cases rule: capabilityOf_cases)
  case elasticsearch
  then show ?thesis
    by (simp add: getProjectTrafficFilters_elasticsearch [OF assms(1)] GetMembership_def split: prod.splits)
next
  case observability
  then show ?thesis
    by (simp add: getProjectTrafficFilters_observability [OF assms(1)] GetMembership_def split: prod.splits)
next
  case security
  then show ?thesis
    by (simp add: getProjectTrafficFilters_security [OF assms(1)] GetMembership_def split: prod.splits)
qed

lemma capabilityOf_None_iff:
  "capabilityOf c projectType = None \<longleftrightarrow>
     projectType \<noteq> ''elasticsearch'' \<and> projectType \<noteq> ''observability'' \<and> projectType \<noteq> ''security''"
  by (simp add: capabilityOf_def)

lemma getProjectTrafficFilters_unknown:
  assumes "capabilityOf c projectType = None"
  shows "getProjectTrafficFilters r projectID projectType st
           = Some (([], [NewErrorDiagnostic ''Invalid project type'' (''Unknown project type: '' @ projectType)]), st)"
  using assms unfolding capabilityOf_None_iff getProjectTrafficFilters_def Let_def
  by (simp add: AddError_Nil)

lemma getProjectTrafficFilters_nil_client:
  assumes "client r = None" and "capabilityOf c projectType = Some cap"
  shows "getProjectTrafficFilters r projectID projectType st = None"
  using assms(2)
  by (cases rule: capabilityOf_cases) (simp_all add: getProjectTrafficFilters_def assms(1))

lemma patch_branch:
  "(case res of
      Inl err \<Rightarrow> Some (AddError [] ''Failed to update project'' err, st')
    | Inr resp \<Rightarrow>
        (case JSON200 resp of
           None \<Rightarrow>
             Some (AddError [] ''Failed to update project''
                     (requestFailed (resp_StatusCode resp) (resp_Status resp) (Body resp)), st')
         | Some p \<Rightarrow> Some ([], st')))
   = Some (patchAck res, st')"
  by (simp add: patchAck_def AddError_Nil split: sum.splits option.splits)

lemma patchProjectTrafficFilters_elasticsearch:
  "client r = Some c \<Longrightarrow>
   patchProjectTrafficFilters r projectID ''elasticsearch'' filters st =
     (case invoke (PatchElasticsearchProject projectID \<lparr>patch_TrafficFilters = Some filters\<rparr>)
             (PatchElasticsearchProjectWithResponse c projectID \<lparr>patch_TrafficFilters = Some filters\<rparr>) st of
        (res, st') \<Rightarrow> Some (patchAck res, st'))"
  unfolding patchProjectTrafficFilters_def Let_def
  by (simp add: patch_branch [symmetric] split: prod.splits sum.splits)

lemma patchProjectTrafficFilters_observability:
  "client r = Some c \<Longrightarrow>
   patchProjectTrafficFilters r projectID ''observability'' filters st =
     (case invoke (PatchObservabilityProject projectID \<lparr>patch_TrafficFilters = Some filters\<rparr>)
             (PatchObservabilityProjectWithResponse c projectID \<lparr>patch_TrafficFilters = Some filters\<rparr>) st of
        (res, st') \<Rightarrow> Some (patchAck res, st'))"
  unfolding patchProjectTrafficFilters_def Let_def
  by (simp add: patch_branch [symmetric] split: prod.splits sum.splits)

lemma patchProjectTrafficFilters_security:
  "client r = Some c \<Longrightarrow>
   patchProjectTrafficFilters r projectID ''security'' filters st =
     (case invoke (PatchSecurityProject projectID \<lparr>patch_TrafficFilters = Some filters\<rparr>)
             (PatchSecurityProjectWithResponse c projectID \<lparr>patch_TrafficFilters = Some filters\<rparr>) st of
        (res, st') \<Rightarrow> Some (patchAck res, st'))"
  unfolding patchProjectTrafficFilters_def Let_def
  by (simp add: patch_branch [symmetric] split: prod.splits sum.splits)

lemma patchProjectTrafficFilters_dispatch:
  assumes "client r = Some c" and "capabilityOf c projectType = Some cap"
  shows "patchProjectTrafficFilters r projectID projectType filters st
           = Some (PatchMembership cap projectID filters st)"
  using assms(2)
proof (cases rule: capabilityOf_cases)
  case elasticsearch
  then show ?thesis
    by (simp add: patchProjectTrafficFilters_elasticsearch [OF assms(1)] PatchMembership_def split: prod.splits)
next
  case observability
  then show ?thesis
    by (simp add: patchProjectTrafficFilters_observability [OF assms(1)] PatchMembership_def split: prod.splits)
next
  case security
  then show ?thesis
    by (simp add: patchProjectTrafficFilters_security [OF assms(1)] PatchMembership_def split: prod.splits)
qed

lemma membershipOf_no_error:
  "\<not> HasError (snd (membershipOf name projectID res)) \<Longrightarrow> snd (membershipOf name projectID res) = []"
  by (auto simp: membershipOf_def HasError_NewErrorDiagnostic split: sum.splits option.splits if_splits)

text \<open>A read that returns no error came from a configured client and a known kind.\<close>

lemma getProjectTrafficFilters_ok:
  assumes "getProjectTrafficFilters r projectID projectType st = Some ((S, gd), st1)"
    and "\<not> HasError gd"
  obtains c cap where "client r = Some c" and "capabilityOf c projectType = Some cap"
    and "GetMembership cap projectID st = ((S, gd), st1)" and "gd = []"
proof (cases "client r")
  case None
  show ?thesis
  proof (cases "capabilityOf undefined projectType")
    case n: None
    from assms show ?thesis
      by (auto simp: getProjectTrafficFilters_unknown [OF n] HasError_NewErrorDiagnostic)
  next
    case (Some cap)
    from assms show ?thesis
      by (simp add: getProjectTrafficFilters_nil_client [OF None Some])
  qed
next
  case (Some c)
  show ?thesis
  proof (cases "capabilityOf c projectType")
    case n: None
    from assms show ?thesis
      by (auto simp: getProjectTrafficFilters_unknown [OF n] HasError_NewErrorDiagnostic)
  next
    case cap: (Some cap)
    from assms(1) have g: "GetMembership cap projectID st = ((S, gd), st1)"
      by (simp add: getProjectTrafficFilters_dispatch [OF Some cap])
    then have "gd = snd (membershipOf (kindName cap) projectID (fst (GetProject cap projectID (world st))))"
      by (auto simp: GetMembership_def invoke_def split: prod.splits)
    with assms(2) have "gd = []"
      using membershipOf_no_error by metis
    with Some cap g show ?thesis
      by (rule that)
  qed
qed

lemma calls_GetMembership:
  "calls (snd (GetMembership cap projectID st)) = calls st @ [GetProjectCall cap projectID]"
  by (simp add: GetMembership_def invoke_def split: prod.splits)

lemma calls_PatchMembership:
  "calls (snd (PatchMembership cap projectID filters st))
     = calls st @ [PatchProjectCall cap projectID \<lparr>patch_TrafficFilters = Some filters\<rparr>]"
  by (simp add: PatchMembership_def invoke_def split: prod.splits)

lemma capability_calls:
  assumes "capabilityOf c projectType = Some cap"
  shows "sentFilters (PatchProjectCall cap projectID q) = patch_TrafficFilters q"
    and "patchedProject (PatchProjectCall cap projectID q) = Some projectID"
    and "isPatch (PatchProjectCall cap projectID q)"
    and "\<not> isPatch (GetProjectCall cap projectID)"
  using assms by (cases rule: capabilityOf_cases; simp)+

subsection \<open>The operations of the association, given what the read returned\<close>

lemma hasFilter_iff: "hasFilter fs i \<longleftrightarrow> i \<in> tf_Id ` set fs"
  by (induction fs) auto

lemma withoutFilter_filter: "withoutFilter acc fs i = acc @ filter (\<lambda>f. tf_Id f \<noteq> i) fs"
  by (induction fs arbitrary: acc) auto

lemma Create_existing:
  assumes "\<not> HasError (Diagnostics resp)" and "\<not> HasError (Get_diags (Plan req))"
    and "getProjectTrafficFilters r (ValueString (ProjectID (Get_model (Plan req))))
           (ValueString (ProjectType (Get_model (Plan req)))) st = Some ((S, gd), st1)"
    and "\<not> HasError gd"
    and "hasFilter S (ValueString (TrafficFilterID (Get_model (Plan req))))"
  shows "Create r req resp st =
           Some (resp\<lparr>State := (State resp)\<lparr>Raw := Some ((Get_model (Plan req))
                          \<lparr>ID := StringValue (ValueString (ProjectID (Get_model (Plan req))) @ ''-''
                                   @ ValueString (TrafficFilterID (Get_model (Plan req))))\<rparr>)\<rparr>,
                       Diagnostics := Append (Diagnostics resp) (Get_diags (Plan req))\<rparr>, st1)"
proof -
  from assms(3,4) obtain c where c: "client r = Some c" and gd: "gd = []"
    by (rule getProjectTrafficFilters_ok)
  show ?thesis
    unfolding Create_def Let_def
    by (simp add: resourceReady_def c assms HasError_Append HasError_Nil gd State_Set_def)
qed

lemma Create_fresh:
  assumes "\<not> HasError (Diagnostics resp)" and "\<not> HasError (Get_diags (Plan req))"
    and "getProjectTrafficFilters r (ValueString (ProjectID (Get_model (Plan req))))
           (ValueString (ProjectType (Get_model (Plan req)))) st = Some ((S, gd), st1)"
    and "\<not> HasError gd"
    and "\<not> hasFilter S (ValueString (TrafficFilterID (Get_model (Plan req))))"
    and "patchProjectTrafficFilters r (ValueString (ProjectID (Get_model (Plan req))))
           (ValueString (ProjectType (Get_model (Plan req))))
           (S @ [\<lparr>tf_Id = ValueString (TrafficFilterID (Get_model (Plan req)))\<rparr>]) st1 = Some (pd, st2)"
  shows "Create r req resp st =
           Some (if HasError pd
                 then resp\<lparr>Diagnostics := Append (Append (Diagnostics resp) (Get_diags (Plan req))) pd\<rparr>
                 else resp\<lparr>State := (State resp)\<lparr>Raw := Some ((Get_model (Plan req))
                          \<lparr>ID := StringValue (ValueString (ProjectID (Get_model (Plan req))) @ ''-''
                                   @ ValueString (TrafficFilterID (Get_model (Plan req))))\<rparr>)\<rparr>,
                       Diagnostics := Append (Append (Diagnostics resp) (Get_diags (Plan req))) pd\<rparr>, st2)"
proof -
  from assms(3,4) obtain c where c: "client r = Some c" and gd: "gd = []"
    by (rule getProjectTrafficFilters_ok)
  show ?thesis
    unfolding Create_def Let_def
    by (simp add: resourceReady_def c assms HasError_Append HasError_Nil gd State_Set_def)
qed

lemma Read_found:
  assumes "\<not> HasError (Diagnostics resp)" and "\<not> HasError (Get_diags (ReadRequest_State req))"
    and "getProjectTrafficFilters r (ValueString (ProjectID (Get_model (ReadRequest_State req))))
           (ValueString (ProjectType (Get_model (ReadRequest_State req)))) st = Some ((S, gd), st1)"
    and "\<not> HasError gd"
  shows "Read r req resp st =
           Some (resp\<lparr>State :=
                        (if hasFilter S (ValueString (TrafficFilterID (Get_model (ReadRequest_State req))))
                         then (State resp)\<lparr>Raw := Some (Get_model (ReadRequest_State req))\<rparr>
                         else (State resp)\<lparr>Raw := None\<rparr>),
                       Diagnostics := Append (Diagnostics resp) (Get_diags (ReadRequest_State req))\<rparr>, st1)"
proof -
  from assms(3,4) obtain c where c: "client r = Some c" and gd: "gd = []"
    by (rule getProjectTrafficFilters_ok)
  show ?thesis
    unfolding Read_def Let_def
    by (simp add: resourceReady_def c assms HasError_Append HasError_Nil gd State_Set_def RemoveResource_def)
qed

lemma Read_failed:
  assumes "client r = Some c"
    and "\<not> HasError (Diagnostics resp)" and "\<not> HasError (Get_diags (ReadRequest_State req))"
    and "getProjectTrafficFilters r (ValueString (ProjectID (Get_model (ReadRequest_State req))))
           (ValueString (ProjectType (Get_model (ReadRequest_State req)))) st = Some ((S, gd), st1)"
    and "HasError gd"
  shows "Read r req resp st =
           Some (resp\<lparr>Diagnostics :=
                   Append (Append (Diagnostics resp) (Get_diags (ReadRequest_State req))) gd\<rparr>, st1)"
  unfolding Read_def Let_def
  by (simp add: resourceReady_def assms HasError_Append)

lemma Delete_patched:
  assumes "\<not> HasError (Diagnostics resp)" and "\<not> HasError (Get_diags (DeleteRequest_State req))"
    and "getProjectTrafficFilters r (ValueString (ProjectID (Get_model (DeleteRequest_State req))))
           (ValueString (ProjectType (Get_model (DeleteRequest_State req)))) st = Some ((S, gd), st1)"
    and "\<not> HasError gd"
    and "patchProjectTrafficFilters r (ValueString (ProjectID (Get_model (DeleteRequest_State req))))
           (ValueString (ProjectType (Get_model (DeleteRequest_State req))))
           (filter (\<lambda>f. tf_Id f \<noteq> ValueString (TrafficFilterID (Get_model (DeleteRequest_State req)))) S)
           st1 = Some (pd, st2)"
  shows "Delete r req resp st =
           Some (resp\<lparr>Diagnostics :=
                   Append (Append (Diagnostics resp) (Get_diags (DeleteRequest_State req))) pd\<rparr>, st2)"
proof -
  from assms(3,4) obtain c where c: "client r = Some c" and gd: "gd = []"
    by (rule getProjectTrafficFilters_ok)
  show ?thesis
    unfolding Delete_def Let_def
    by (simp add: resourceReady_def c assms HasError_Append HasError_Nil gd withoutFilter_filter)
qed

lemma getProjectTrafficFilters_calls:
  assumes "getProjectTrafficFilters r projectID projectType st = Some ((S, gd), st1)"
    and "\<not> HasError gd"
  shows "\<exists>g. calls st1 = calls st @ [g] \<and> \<not> isPatch g"
proof -
  from assms obtain c cap where cap: "capabilityOf c projectType = Some cap"
    and g: "GetMembership cap projectID st = ((S, gd), st1)"
    by (rule getProjectTrafficFilters_ok)
  from g have "calls st1 = calls st @ [GetProjectCall cap projectID]"
    using calls_GetMembership [of cap projectID st] by simp
  then show ?thesis
    by (simp add: capability_calls [OF cap])
qed

lemma Create_succeeds:
  assumes "Create r req resp st = Some (resp', st')" and "\<not> HasError (Diagnostics resp')"
  shows "Raw (State resp') =
           Some ((Get_model (Plan req))
                   \<lparr>ID := StringValue (ValueString (ProjectID (Get_model (Plan req))) @ ''-''
                            @ ValueString (TrafficFilterID (Get_model (Plan req))))\<rparr>)"
  using assms unfolding Create_def Let_def
  by (auto simp: resourceReady_def HasError_Append HasError_AddError State_Set_def
      split: if_splits option.splits prod.splits)

text \<open>The definitions to unfold when an operation runs against the server.\<close>

lemmas run =
  getProjectTrafficFilters_def patchProjectTrafficFilters_def configured_def serverClient_def
  invoke_def serverGet_def serverPatch_def startIO_def serverProject_def okResponse_def
  notFoundResponse_def decoded_def planned_def association_def emptyResponse_def
  trackingResponse_def Create_def Read_def Delete_def resourceReady_def State_Set_def
  RemoveResource_def HasError_def AddError_def NewErrorDiagnostic_def Let_def

subsection \<open>Create keeps the members it found\<close>



subsection \<open>Create of an association that already holds\<close>

text \<open>
  Claim C2. When the membership that \<open>Create\<close> read has a member with the filter id of the
  plan, \<open>Create\<close> ends in the state the read left: it made the read and no patch. It adds
  no error diagnostic, and the identity it records is the project id, a hyphen and the
  filter id, the same that a \<open>Create\<close> of the same plan records when the filter is not yet
  a member and the patch succeeds.
\<close>

theorem Create_idempotent:
  fixes r :: "'w Resource" and r' :: "'v Resource" and req :: "modelV0 CreateRequest"
  defines "m \<equiv> Get_model (Plan req)"
  defines "P \<equiv> ValueString (ProjectID m)"
    and "T \<equiv> ValueString (ProjectType m)"
    and "F \<equiv> ValueString (TrafficFilterID m)"
  assumes "\<not> HasError (Diagnostics resp)" and "\<not> HasError (Get_diags (Plan req))"
    and "getProjectTrafficFilters r P T st = Some ((S, gd), st1)" and "\<not> HasError gd"
    and "F \<in> tf_Id ` set S"
    and "getProjectTrafficFilters r' P T st' = Some ((S', gd'), st1')" and "\<not> HasError gd'"
    and "F \<notin> tf_Id ` set S'"
    and "Create r' req resp0 st' = Some (fresh, st2')" and "\<not> HasError (Diagnostics fresh)"
  shows "\<exists>resp' g.
           Create r req resp st = Some (resp', st1)
           \<and> \<not> HasError (Diagnostics resp')
           \<and> calls st1 = calls st @ [g] \<and> \<not> isPatch g
           \<and> map_option ID (Raw (State resp')) = Some (StringValue (P @ ''-'' @ F))
           \<and> map_option ID (Raw (State resp')) = map_option ID (Raw (State fresh))"
proof -
  have hf: "hasFilter S F"
    using assms(9) by (simp add: hasFilter_iff)
  have c: "Create r req resp st =
             Some (resp\<lparr>State := (State resp)\<lparr>Raw := Some (m\<lparr>ID := StringValue (P @ ''-'' @ F)\<rparr>)\<rparr>,
                     Diagnostics := Append (Diagnostics resp) (Get_diags (Plan req))\<rparr>, st1)"
    using Create_existing [OF assms(5,6) assms(7) [unfolded P_def T_def m_def] assms(8)
        hf [unfolded F_def m_def]]
    by (simp add: m_def P_def F_def)
  have f: "Raw (State fresh) = Some (m\<lparr>ID := StringValue (P @ ''-'' @ F)\<rparr>)"
    using Create_succeeds [OF assms(13,14)] by (simp add: m_def P_def F_def)
  from getProjectTrafficFilters_calls [OF assms(7,8)] obtain g
    where "calls st1 = calls st @ [g]" and "\<not> isPatch g"
    by blast
  with c f show ?thesis
    using assms(5,6) by (simp add: HasError_Append)
qed

text \<open>The filter \<open>C\<close> on a project with members \<open>A, C\<close>, next to one with members \<open>A, B\<close>.\<close>

theorem Create_idempotent_witness:
  "\<exists>resp' g.
     Create configured \<lparr>Plan = decoded (planned ''proj'' ''security'' ''C'')\<rparr> emptyResponse
       (startIO [serverProject ''proj'' (Some [''A'', ''C''])])
       = Some (resp', \<lparr>world = [serverProject ''proj'' (Some [''A'', ''C''])],
                       calls = [GetSecurityProject ''proj'']\<rparr>)
     \<and> \<not> HasError (Diagnostics resp')
     \<and> [GetSecurityProject ''proj''] = [] @ [g] \<and> \<not> isPatch g
     \<and> map_option ID (Raw (State resp')) = Some (StringValue ''proj-C'')
     \<and> map_option ID (Raw (State resp'))
         = map_option (ID \<circ> the \<circ> Raw \<circ> State \<circ> fst)
             (Create configured \<lparr>Plan = decoded (planned ''proj'' ''security'' ''C'')\<rparr> emptyResponse
                (startIO [serverProject ''proj'' (Some [''A'', ''B''])]))"
proof -
  let ?req = "\<lparr>Plan = decoded (planned ''proj'' ''security'' ''C'')\<rparr>"
  have existing: "getProjectTrafficFilters configured ''proj'' ''security''
           (startIO [serverProject ''proj'' (Some [''A'', ''C''])])
         = Some (([\<lparr>tf_Id = ''A''\<rparr>, \<lparr>tf_Id = ''C''\<rparr>], []),
                 \<lparr>world = [serverProject ''proj'' (Some [''A'', ''C''])],
                  calls = [GetSecurityProject ''proj'']\<rparr>)"
    by (simp add: run)
  have absent: "getProjectTrafficFilters configured ''proj'' ''security''
           (startIO [serverProject ''proj'' (Some [''A'', ''B''])])
         = Some (([\<lparr>tf_Id = ''A''\<rparr>, \<lparr>tf_Id = ''B''\<rparr>], []),
                 \<lparr>world = [serverProject ''proj'' (Some [''A'', ''B''])],
                  calls = [GetSecurityProject ''proj'']\<rparr>)"
    by (simp add: run)
  have fresh: "Create configured ?req emptyResponse
         (startIO [serverProject ''proj'' (Some [''A'', ''B''])]) =
       Some (\<lparr>State = \<lparr>Raw = Some (association ''proj'' ''security'' ''C'')\<rparr>, Diagnostics = []\<rparr>,
         \<lparr>world = [serverProject ''proj'' (Some [''A'', ''B'', ''C'']),
                   serverProject ''proj'' (Some [''A'', ''B''])],
          calls = [GetSecurityProject ''proj'',
                   PatchSecurityProject ''proj''
                     \<lparr>patch_TrafficFilters = Some [\<lparr>tf_Id = ''A''\<rparr>, \<lparr>tf_Id = ''B''\<rparr>, \<lparr>tf_Id = ''C''\<rparr>]\<rparr>]\<rparr>)"
    by (simp add: run)
  show ?thesis
    using Create_idempotent
      [where resp = emptyResponse and req = ?req and r = configured and r' = configured
         and st = "startIO [serverProject ''proj'' (Some [''A'', ''C''])]"
         and S = "[\<lparr>tf_Id = ''A''\<rparr>, \<lparr>tf_Id = ''C''\<rparr>]" and gd = "[]"
         and ?st1.0 = "\<lparr>world = [serverProject ''proj'' (Some [''A'', ''C''])],
                  calls = [GetSecurityProject ''proj'']\<rparr>"
         and st' = "startIO [serverProject ''proj'' (Some [''A'', ''B''])]"
         and S' = "[\<lparr>tf_Id = ''A''\<rparr>, \<lparr>tf_Id = ''B''\<rparr>]" and gd' = "[]"
         and st1' = "\<lparr>world = [serverProject ''proj'' (Some [''A'', ''B''])],
                  calls = [GetSecurityProject ''proj'']\<rparr>"
         and ?resp0.0 = emptyResponse
         and fresh = "\<lparr>State = \<lparr>Raw = Some (association ''proj'' ''security'' ''C'')\<rparr>, Diagnostics = []\<rparr>"
         and st2' = "\<lparr>world = [serverProject ''proj'' (Some [''A'', ''B'', ''C'']),
                   serverProject ''proj'' (Some [''A'', ''B''])],
          calls = [GetSecurityProject ''proj'',
                   PatchSecurityProject ''proj''
                     \<lparr>patch_TrafficFilters = Some [\<lparr>tf_Id = ''A''\<rparr>, \<lparr>tf_Id = ''B''\<rparr>, \<lparr>tf_Id = ''C''\<rparr>]\<rparr>]\<rparr>"]
      existing absent fresh
    by (auto simp: decoded_def planned_def emptyResponse_def association_def startIO_def HasError_Nil)
qed

subsection \<open>Delete removes the filter and nothing else\<close>

text \<open>
  Claim C3. When the membership that \<open>Delete\<close> read is the list \<open>S\<close>, \<open>Delete\<close> issues one
  further call, a patch of the same project, and the filters it sends are \<open>S\<close> without the
  entries whose id is the filter id of the association: the other entries stay, in their
  order. When no entry has that id the list sent is \<open>S\<close> itself. \<open>Delete\<close> reports an error
  exactly when the patch does, so it succeeds when the patch succeeds, and it leaves
  the state to the framework.
\<close>

theorem Delete_removes_filter:
  fixes r :: "'w Resource" and req :: "modelV0 DeleteRequest"
  defines "m \<equiv> Get_model (DeleteRequest_State req)"
  defines "P \<equiv> ValueString (ProjectID m)"
    and "T \<equiv> ValueString (ProjectType m)"
    and "F \<equiv> ValueString (TrafficFilterID m)"
  assumes "\<not> HasError (Diagnostics resp)" and "\<not> HasError (Get_diags (DeleteRequest_State req))"
    and "getProjectTrafficFilters r P T st = Some ((S, gd), st1)" and "\<not> HasError gd"
  shows "\<exists>resp' st2 k pd.
           Delete r req resp st = Some (resp', st2)
           \<and> patchProjectTrafficFilters r P T (filter (\<lambda>f. tf_Id f \<noteq> F) S) st1 = Some (pd, st2)
           \<and> calls st2 = calls st1 @ [k]
           \<and> patchedProject k = Some P
           \<and> sentFilters k = Some (filter (\<lambda>f. tf_Id f \<noteq> F) S)
           \<and> (F \<notin> tf_Id ` set S \<longrightarrow> sentFilters k = Some S)
           \<and> HasError (Diagnostics resp') = HasError pd
           \<and> State resp' = State resp"
proof -
  from assms(7,8) obtain c cap where c: "client r = Some c" and cap: "capabilityOf c T = Some cap"
    by (rule getProjectTrafficFilters_ok)
  let ?new = "filter (\<lambda>f. tf_Id f \<noteq> F) S"
  obtain pd st2 where p: "PatchMembership cap P ?new st1 = (pd, st2)"
    by (cases "PatchMembership cap P ?new st1")
  then have patch: "patchProjectTrafficFilters r P T ?new st1 = Some (pd, st2)"
    by (simp add: patchProjectTrafficFilters_dispatch [OF c cap])
  have d: "Delete r req resp st =
             Some (resp\<lparr>Diagnostics :=
                     Append (Append (Diagnostics resp) (Get_diags (DeleteRequest_State req))) pd\<rparr>, st2)"
    using Delete_patched [OF assms(5,6) assms(7) [unfolded P_def T_def m_def] assms(8)
        patch [unfolded P_def T_def F_def m_def]] .
  have k: "calls st2 = calls st1 @ [PatchProjectCall cap P \<lparr>patch_TrafficFilters = Some ?new\<rparr>]"
    using calls_PatchMembership [of cap P ?new st1] p by simp
  have same: "F \<notin> tf_Id ` set S \<Longrightarrow> ?new = S"
    by (rule filter_True) auto
  show ?thesis
    using d k patch same assms(5,6)
    by (auto simp: capability_calls [OF cap] HasError_Append)
qed

text \<open>Deleting \<open>B\<close> from \<open>A, B, C\<close> sends \<open>A, C\<close>; deleting \<open>B\<close> from \<open>A, C\<close> sends \<open>A, C\<close>.\<close>

theorem Delete_removes_filter_witness:
  "(\<exists>resp' st2 k.
     Delete configured \<lparr>DeleteRequest_State = decoded (association ''proj'' ''observability'' ''B'')\<rparr>
       (trackingResponse (association ''proj'' ''observability'' ''B''))
       (startIO [serverProject ''proj'' (Some [''A'', ''B'', ''C''])]) = Some (resp', st2)
     \<and> calls st2 = [GetObservabilityProject ''proj''] @ [k]
     \<and> patchedProject k = Some ''proj''
     \<and> sentFilters k = Some [\<lparr>tf_Id = ''A''\<rparr>, \<lparr>tf_Id = ''C''\<rparr>]
     \<and> \<not> HasError (Diagnostics resp')
     \<and> State resp' = \<lparr>Raw = Some (association ''proj'' ''observability'' ''B'')\<rparr>)
   \<and> ''B'' \<notin> tf_Id ` set [\<lparr>tf_Id = ''A''\<rparr>, \<lparr>tf_Id = ''C''\<rparr>]
   \<and> (\<exists>resp' st2 k.
     Delete configured \<lparr>DeleteRequest_State = decoded (association ''proj'' ''observability'' ''B'')\<rparr>
       (trackingResponse (association ''proj'' ''observability'' ''B''))
       (startIO [serverProject ''proj'' (Some [''A'', ''C''])]) = Some (resp', st2)
     \<and> calls st2 = [GetObservabilityProject ''proj''] @ [k]
     \<and> sentFilters k = Some [\<lparr>tf_Id = ''A''\<rparr>, \<lparr>tf_Id = ''C''\<rparr>]
     \<and> \<not> HasError (Diagnostics resp'))"
proof -
  let ?req = "\<lparr>DeleteRequest_State = decoded (association ''proj'' ''observability'' ''B'')\<rparr>"
  let ?resp = "trackingResponse (association ''proj'' ''observability'' ''B'')"
  have read: "getProjectTrafficFilters configured ''proj'' ''observability''
           (startIO [serverProject ''proj'' (Some [''A'', ''B'', ''C''])])
         = Some (([\<lparr>tf_Id = ''A''\<rparr>, \<lparr>tf_Id = ''B''\<rparr>, \<lparr>tf_Id = ''C''\<rparr>], []),
                 \<lparr>world = [serverProject ''proj'' (Some [''A'', ''B'', ''C''])],
                  calls = [GetObservabilityProject ''proj'']\<rparr>)"
    by (simp add: run)
  have ok: "\<And>pd st2. patchProjectTrafficFilters configured ''proj'' ''observability''
                 [\<lparr>tf_Id = ''A''\<rparr>, \<lparr>tf_Id = ''C''\<rparr>]
                 \<lparr>world = [serverProject ''proj'' (Some [''A'', ''B'', ''C''])],
                  calls = [GetObservabilityProject ''proj'']\<rparr> = Some (pd, st2) \<Longrightarrow> pd = []"
    by (simp add: run)
  have read': "getProjectTrafficFilters configured ''proj'' ''observability''
           (startIO [serverProject ''proj'' (Some [''A'', ''C''])])
         = Some (([\<lparr>tf_Id = ''A''\<rparr>, \<lparr>tf_Id = ''C''\<rparr>], []),
                 \<lparr>world = [serverProject ''proj'' (Some [''A'', ''C''])],
                  calls = [GetObservabilityProject ''proj'']\<rparr>)"
    by (simp add: run)
  have ok': "\<And>pd st2. patchProjectTrafficFilters configured ''proj'' ''observability''
                 [\<lparr>tf_Id = ''A''\<rparr>, \<lparr>tf_Id = ''C''\<rparr>]
                 \<lparr>world = [serverProject ''proj'' (Some [''A'', ''C''])],
                  calls = [GetObservabilityProject ''proj'']\<rparr> = Some (pd, st2) \<Longrightarrow> pd = []"
    by (simp add: run)
  have present: "\<exists>resp' st2 k.
     Delete configured ?req ?resp
       (startIO [serverProject ''proj'' (Some [''A'', ''B'', ''C''])]) = Some (resp', st2)
     \<and> calls st2 = [GetObservabilityProject ''proj''] @ [k]
     \<and> patchedProject k = Some ''proj''
     \<and> sentFilters k = Some [\<lparr>tf_Id = ''A''\<rparr>, \<lparr>tf_Id = ''C''\<rparr>]
     \<and> \<not> HasError (Diagnostics resp')
     \<and> State resp' = \<lparr>Raw = Some (association ''proj'' ''observability'' ''B'')\<rparr>"
    using Delete_removes_filter
      [where resp = ?resp and req = ?req and r = configured
         and st = "startIO [serverProject ''proj'' (Some [''A'', ''B'', ''C''])]"
         and S = "[\<lparr>tf_Id = ''A''\<rparr>, \<lparr>tf_Id = ''B''\<rparr>, \<lparr>tf_Id = ''C''\<rparr>]" and gd = "[]"
         and ?st1.0 = "\<lparr>world = [serverProject ''proj'' (Some [''A'', ''B'', ''C''])],
                  calls = [GetObservabilityProject ''proj'']\<rparr>"]
      read
    by (auto dest!: ok simp: decoded_def association_def trackingResponse_def HasError_Nil)
  have absent: "\<exists>resp' st2 k.
     Delete configured ?req ?resp
       (startIO [serverProject ''proj'' (Some [''A'', ''C''])]) = Some (resp', st2)
     \<and> calls st2 = [GetObservabilityProject ''proj''] @ [k]
     \<and> sentFilters k = Some [\<lparr>tf_Id = ''A''\<rparr>, \<lparr>tf_Id = ''C''\<rparr>]
     \<and> \<not> HasError (Diagnostics resp')"
    using Delete_removes_filter
      [where resp = ?resp and req = ?req and r = configured
         and st = "startIO [serverProject ''proj'' (Some [''A'', ''C''])]"
         and S = "[\<lparr>tf_Id = ''A''\<rparr>, \<lparr>tf_Id = ''C''\<rparr>]" and gd = "[]"
         and ?st1.0 = "\<lparr>world = [serverProject ''proj'' (Some [''A'', ''C''])],
                  calls = [GetObservabilityProject ''proj'']\<rparr>"]
      read'
    by (auto dest!: ok' simp: decoded_def association_def trackingResponse_def HasError_Nil)
  from present absent show ?thesis
    by simp
qed

subsection \<open>Read drops an association that is no longer in the project\<close>

text \<open>
  Claim C5. When the read of the project succeeds, \<open>Read\<close> makes no further call and adds
  no diagnostic of its own. If no member of the membership has the tracked filter id,
  the resource is removed from the state; if one has, the state holds the record that
  was tracked, unchanged.
\<close>

theorem Read_drops_missing:
  fixes r :: "'w Resource" and req :: "modelV0 ReadRequest"
  defines "m \<equiv> Get_model (ReadRequest_State req)"
  defines "P \<equiv> ValueString (ProjectID m)"
    and "T \<equiv> ValueString (ProjectType m)"
    and "F \<equiv> ValueString (TrafficFilterID m)"
  assumes "\<not> HasError (Diagnostics resp)" and "\<not> HasError (Get_diags (ReadRequest_State req))"
    and "getProjectTrafficFilters r P T st = Some ((S, gd), st1)" and "\<not> HasError gd"
  shows "\<exists>resp'.
           Read r req resp st = Some (resp', st1)
           \<and> Diagnostics resp' = Append (Diagnostics resp) (Get_diags (ReadRequest_State req))
           \<and> \<not> HasError (Diagnostics resp')
           \<and> Raw (State resp') = (if F \<in> tf_Id ` set S then Some m else None)
           \<and> State resp' = (State resp)\<lparr>Raw := if F \<in> tf_Id ` set S then Some m else None\<rparr>"
  using Read_found [OF assms(5,6) assms(7) [unfolded P_def T_def m_def] assms(8)] assms(5,6)
  by (auto simp: HasError_Append hasFilter_iff m_def F_def)

text \<open>With members \<open>A\<close> and \<open>C\<close>, the association of \<open>B\<close> is dropped and that of \<open>C\<close> is kept.\<close>

theorem Read_drops_missing_witness:
  "(\<exists>resp'.
     Read configured \<lparr>ReadRequest_State = decoded (association ''proj'' ''observability'' ''B'')\<rparr>
       (trackingResponse (association ''proj'' ''observability'' ''B''))
       (startIO [serverProject ''proj'' (Some [''A'', ''C''])])
       = Some (resp', \<lparr>world = [serverProject ''proj'' (Some [''A'', ''C''])],
                       calls = [GetObservabilityProject ''proj'']\<rparr>)
     \<and> Diagnostics resp' = []
     \<and> Raw (State resp') = None)
   \<and> (\<exists>resp'.
     Read configured \<lparr>ReadRequest_State = decoded (association ''proj'' ''observability'' ''C'')\<rparr>
       (trackingResponse (association ''proj'' ''observability'' ''C''))
       (startIO [serverProject ''proj'' (Some [''A'', ''C''])])
       = Some (resp', \<lparr>world = [serverProject ''proj'' (Some [''A'', ''C''])],
                       calls = [GetObservabilityProject ''proj'']\<rparr>)
     \<and> Diagnostics resp' = []
     \<and> State resp' = \<lparr>Raw = Some (association ''proj'' ''observability'' ''C'')\<rparr>)"
proof -
  have read: "getProjectTrafficFilters configured ''proj'' ''observability''
           (startIO [serverProject ''proj'' (Some [''A'', ''C''])])
         = Some (([\<lparr>tf_Id = ''A''\<rparr>, \<lparr>tf_Id = ''C''\<rparr>], []),
                 \<lparr>world = [serverProject ''proj'' (Some [''A'', ''C''])],
                  calls = [GetObservabilityProject ''proj'']\<rparr>)"
    by (simp add: run)
  have missing: "\<exists>resp'.
     Read configured \<lparr>ReadRequest_State = decoded (association ''proj'' ''observability'' ''B'')\<rparr>
       (trackingResponse (association ''proj'' ''observability'' ''B''))
       (startIO [serverProject ''proj'' (Some [''A'', ''C''])])
       = Some (resp', \<lparr>world = [serverProject ''proj'' (Some [''A'', ''C''])],
                       calls = [GetObservabilityProject ''proj'']\<rparr>)
     \<and> Diagnostics resp' = []
     \<and> Raw (State resp') = None"
    using Read_drops_missing
      [where resp = "trackingResponse (association ''proj'' ''observability'' ''B'')"
         and req = "\<lparr>ReadRequest_State = decoded (association ''proj'' ''observability'' ''B'')\<rparr>"
         and r = configured
         and st = "startIO [serverProject ''proj'' (Some [''A'', ''C''])]"
         and S = "[\<lparr>tf_Id = ''A''\<rparr>, \<lparr>tf_Id = ''C''\<rparr>]" and gd = "[]"
         and ?st1.0 = "\<lparr>world = [serverProject ''proj'' (Some [''A'', ''C''])],
                  calls = [GetObservabilityProject ''proj'']\<rparr>"]
      read
    by (auto simp: decoded_def association_def trackingResponse_def HasError_Nil)
  have kept: "\<exists>resp'.
     Read configured \<lparr>ReadRequest_State = decoded (association ''proj'' ''observability'' ''C'')\<rparr>
       (trackingResponse (association ''proj'' ''observability'' ''C''))
       (startIO [serverProject ''proj'' (Some [''A'', ''C''])])
       = Some (resp', \<lparr>world = [serverProject ''proj'' (Some [''A'', ''C''])],
                       calls = [GetObservabilityProject ''proj'']\<rparr>)
     \<and> Diagnostics resp' = []
     \<and> State resp' = \<lparr>Raw = Some (association ''proj'' ''observability'' ''C'')\<rparr>"
    using Read_drops_missing
      [where resp = "trackingResponse (association ''proj'' ''observability'' ''C'')"
         and req = "\<lparr>ReadRequest_State = decoded (association ''proj'' ''observability'' ''C'')\<rparr>"
         and r = configured
         and st = "startIO [serverProject ''proj'' (Some [''A'', ''C''])]"
         and S = "[\<lparr>tf_Id = ''A''\<rparr>, \<lparr>tf_Id = ''C''\<rparr>]" and gd = "[]"
         and ?st1.0 = "\<lparr>world = [serverProject ''proj'' (Some [''A'', ''C''])],
                  calls = [GetObservabilityProject ''proj'']\<rparr>"]
      read
    by (auto simp: decoded_def association_def trackingResponse_def HasError_Nil)
  from missing kept show ?thesis
    by simp
qed

subsection \<open>The import key\<close>

lemma Split_not_Nil: "Split s c \<noteq> []"
  by (induction s) (auto split: list.splits)

lemma length_Split: "length (Split s c) = Suc (count_list s c)"
  by (induction s) (auto split: list.splits simp: Split_not_Nil)

lemma Split_no_sep: "c \<notin> set p \<Longrightarrow> Split p c = [p]"
  by (induction p) auto

lemma Split_append: "c \<notin> set p \<Longrightarrow> Split (p @ c # rest) c = p # Split rest c"
  by (induction p) auto

lemma Split_Cons_iff:
  "Split s c = p # q # ps \<longleftrightarrow> (\<exists>rest. s = p @ c # rest \<and> c \<notin> set p \<and> Split rest c = q # ps)"
proof (induction s arbitrary: p)
  case Nil
  then show ?case by simp
next
  case (Cons x xs)
  show ?case
  proof (cases "x = c")
    case True
    then show ?thesis
      by (auto simp: Cons_eq_append_conv)
  next
    case False
    show ?thesis
    proof
      assume "Split (x # xs) c = p # q # ps"
      with False obtain p' where p: "p = x # p'" and s: "Split xs c = p' # q # ps"
        by (auto split: list.splits)
      from s Cons.IH obtain rest where "xs = p' @ c # rest" "c \<notin> set p'" "Split rest c = q # ps"
        by blast
      with p False show "\<exists>rest. x # xs = p @ c # rest \<and> c \<notin> set p \<and> Split rest c = q # ps"
        by auto
    next
      assume "\<exists>rest. x # xs = p @ c # rest \<and> c \<notin> set p \<and> Split rest c = q # ps"
      then show "Split (x # xs) c = p # q # ps"
        using Split_append by metis
    qed
  qed
qed

lemma Split_single_iff: "Split s c = [p] \<longleftrightarrow> s = p \<and> c \<notin> set p"
proof
  assume a: "Split s c = [p]"
  then have "count_list s c = 0"
    using length_Split [of s c] by simp
  then have n: "c \<notin> set s"
    by (simp add: count_list_0_iff)
  with a show "s = p \<and> c \<notin> set p"
    by (simp add: Split_no_sep)
next
  assume "s = p \<and> c \<notin> set p"
  then show "Split s c = [p]"
    by (simp add: Split_no_sep)
qed

lemma Split_three_iff:
  "Split s c = [p, t, f] \<longleftrightarrow>
     s = p @ [c] @ t @ [c] @ f \<and> c \<notin> set p \<and> c \<notin> set t \<and> c \<notin> set f"
  by (auto simp: Split_Cons_iff Split_single_iff)

lemma length_three: "length xs = 3 \<longleftrightarrow> (\<exists>p t f. xs = [p, t, f])"
  by (auto simp: length_Suc_conv eval_nat_numeral)


lemma ImportState_parts:
  assumes "Split (ImportStateRequest_ID req) CHR '','' = [p, t, f]"
  shows "ImportState r req resp st =
           Some (if t \<noteq> ''elasticsearch'' \<and> t \<noteq> ''observability'' \<and> t \<noteq> ''security''
                 then resp\<lparr>Diagnostics := AddError (Diagnostics resp) ''Invalid project type''
                        (''project_type must be one of: elasticsearch, observability, security. Got: '' @ t)\<rparr>
                 else resp\<lparr>State := (State resp)\<lparr>Raw :=
                        Some \<lparr>ID = StringValue (p @ ''-'' @ f), ProjectID = StringValue p,
                              ProjectType = StringValue t, TrafficFilterID = StringValue f\<rparr>\<rparr>\<rparr>, st)"
  unfolding ImportState_def Let_def
  by (cases "Raw (State resp)") (simp_all add: assms)

lemma ImportState_count:
  assumes "length (Split (ImportStateRequest_ID req) CHR '','') \<noteq> 3"
  shows "ImportState r req resp st =
           Some (resp\<lparr>Diagnostics := AddError (Diagnostics resp) ''Invalid import ID''
                   (''Expected format: project_id,project_type,traffic_filter_id. Got: ''
                      @ ImportStateRequest_ID req)\<rparr>, st)"
  unfolding ImportState_def Let_def using assms by simp

lemma AddError_mem: "NewErrorDiagnostic s t \<in> set (AddError ds s t)"
  by (simp add: AddError_def)

text \<open>
  Claim C6, as the code has it. \<open>ImportState\<close> makes no call of the client. It adds no
  error exactly when the import key is three pieces joined by two commas, none of the
  pieces holding a comma, and the middle piece is one of \<open>elasticsearch\<close>,
  \<open>observability\<close>, \<open>security\<close>; the first and the last piece may be empty. On success the
  four attributes are set from the pieces: \<open>id\<close> to the first piece, a hyphen and the
  last piece, and \<open>project_id\<close>, \<open>project_type\<close>, \<open>traffic_filter_id\<close> to the three pieces.
  A key with another number of commas adds the error \<open>Invalid import ID\<close>, and a middle
  piece that is not a kind adds the error \<open>Invalid project type\<close>; both leave the state
  as it was.
\<close>

theorem ImportState_parses_key:
  fixes r :: "'w Resource"
  defines "kinds \<equiv> {''elasticsearch'', ''observability'', ''security''}"
  assumes "\<not> HasError (Diagnostics resp)"
  shows "\<exists>resp'.
           ImportState r req resp st = Some (resp', st)
           \<and> (\<not> HasError (Diagnostics resp') \<longleftrightarrow>
                (\<exists>p t f. ImportStateRequest_ID req = p @ '','' @ t @ '','' @ f
                   \<and> CHR '','' \<notin> set p \<and> CHR '','' \<notin> set t \<and> CHR '','' \<notin> set f \<and> t \<in> kinds))
           \<and> (\<not> HasError (Diagnostics resp') \<longleftrightarrow>
                count_list (ImportStateRequest_ID req) CHR '','' = 2
                \<and> Split (ImportStateRequest_ID req) CHR '','' ! 1 \<in> kinds)
           \<and> (count_list (ImportStateRequest_ID req) CHR '','' \<noteq> 2 \<longrightarrow>
                State resp' = State resp
                \<and> NewErrorDiagnostic ''Invalid import ID''
                     (''Expected format: project_id,project_type,traffic_filter_id. Got: ''
                        @ ImportStateRequest_ID req) \<in> set (Diagnostics resp'))
           \<and> (ImportStateRequest_ID req = p @ '','' @ t @ '','' @ f
                  \<and> CHR '','' \<notin> set p \<and> CHR '','' \<notin> set t \<and> CHR '','' \<notin> set f \<longrightarrow>
                (if t \<in> kinds
                 then Diagnostics resp' = Diagnostics resp
                      \<and> Raw (State resp') =
                          Some \<lparr>ID = StringValue (p @ ''-'' @ f), ProjectID = StringValue p,
                                ProjectType = StringValue t, TrafficFilterID = StringValue f\<rparr>
                 else State resp' = State resp
                      \<and> NewErrorDiagnostic ''Invalid project type''
                           (''project_type must be one of: elasticsearch, observability, security. Got: '' @ t)
                         \<in> set (Diagnostics resp')))"
proof (cases "length (Split (ImportStateRequest_ID req) CHR '','') = 3")
  case False
  then have n: "count_list (ImportStateRequest_ID req) CHR '','' \<noteq> 2"
    by (simp add: length_Split)
  have no: "\<not> (\<exists>p t f. ImportStateRequest_ID req = p @ '','' @ t @ '','' @ f
                   \<and> CHR '','' \<notin> set p \<and> CHR '','' \<notin> set t \<and> CHR '','' \<notin> set f)"
  proof
    assume "\<exists>p t f. ImportStateRequest_ID req = p @ '','' @ t @ '','' @ f
                   \<and> CHR '','' \<notin> set p \<and> CHR '','' \<notin> set t \<and> CHR '','' \<notin> set f"
    then obtain p t f where "Split (ImportStateRequest_ID req) CHR '','' = [p, t, f]"
      by (auto simp: Split_three_iff)
    with False show False by simp
  qed
  show ?thesis
    using n no by (auto simp: ImportState_count [OF False] HasError_AddError AddError_mem)
next
  case True
  then obtain p0 t0 f0 where parts: "Split (ImportStateRequest_ID req) CHR '','' = [p0, t0, f0]"
    by (auto simp: length_three)
  then have key: "ImportStateRequest_ID req = p0 @ '','' @ t0 @ '','' @ f0"
    and sep: "CHR '','' \<notin> set p0" "CHR '','' \<notin> set t0" "CHR '','' \<notin> set f0"
    by (simp_all add: Split_three_iff)
  have two: "count_list (ImportStateRequest_ID req) CHR '','' = 2"
    using True by (simp add: length_Split)
  have uniq: "p' = p0 \<and> t' = t0 \<and> f' = f0"
    if "ImportStateRequest_ID req = p' @ '','' @ t' @ '','' @ f'"
      and "CHR '','' \<notin> set p'" "CHR '','' \<notin> set t'" "CHR '','' \<notin> set f'" for p' t' f'
  proof -
    from that have "Split (ImportStateRequest_ID req) CHR '','' = [p', t', f']"
      by (simp add: Split_three_iff)
    with parts show ?thesis by simp
  qed
  show ?thesis
  proof (cases "t0 \<in> kinds")
    case k: True
    then have t: "\<not> (t0 \<noteq> ''elasticsearch'' \<and> t0 \<noteq> ''observability'' \<and> t0 \<noteq> ''security'')"
      by (auto simp: kinds_def)
    have "\<exists>p t f. ImportStateRequest_ID req = p @ '','' @ t @ '','' @ f
                   \<and> CHR '','' \<notin> set p \<and> CHR '','' \<notin> set t \<and> CHR '','' \<notin> set f \<and> t \<in> kinds"
      using key sep k by blast
    then show ?thesis
      using two k assms(2) uniq
      by (auto simp: ImportState_parts [OF parts] t parts simp del: append_assoc append.simps)
  next
    case k: False
    then have t: "t0 \<noteq> ''elasticsearch'' \<and> t0 \<noteq> ''observability'' \<and> t0 \<noteq> ''security''"
      by (auto simp: kinds_def)
    have "\<not> (\<exists>p t f. ImportStateRequest_ID req = p @ '','' @ t @ '','' @ f
                   \<and> CHR '','' \<notin> set p \<and> CHR '','' \<notin> set t \<and> CHR '','' \<notin> set f \<and> t \<in> kinds)"
      using uniq k by blast
    then show ?thesis
      using two k uniq
      by (auto simp: ImportState_parts [OF parts] t parts HasError_AddError AddError_mem
          simp del: append_assoc append.simps)
  qed
qed

text \<open>The three keys of the specification: a good key, a key of two pieces, an unknown kind.\<close>

theorem ImportState_parses_key_witness:
  "(\<exists>resp'.
      ImportState configured \<lparr>ImportStateRequest_ID = ''proj1,elasticsearch,filt1''\<rparr> emptyResponse
        (startIO []) = Some (resp', startIO [])
      \<and> \<not> HasError (Diagnostics resp')
      \<and> Raw (State resp') =
          Some \<lparr>ID = StringValue ''proj1-filt1'', ProjectID = StringValue ''proj1'',
                ProjectType = StringValue ''elasticsearch'', TrafficFilterID = StringValue ''filt1''\<rparr>)
   \<and> (\<exists>resp'.
      ImportState configured \<lparr>ImportStateRequest_ID = ''proj1,filt1''\<rparr> emptyResponse
        (startIO []) = Some (resp', startIO [])
      \<and> HasError (Diagnostics resp')
      \<and> State resp' = State emptyResponse
      \<and> NewErrorDiagnostic ''Invalid import ID''
           ''Expected format: project_id,project_type,traffic_filter_id. Got: proj1,filt1''
         \<in> set (Diagnostics resp'))
   \<and> (\<exists>resp'.
      ImportState configured \<lparr>ImportStateRequest_ID = ''proj1,bogus,filt1''\<rparr> emptyResponse
        (startIO []) = Some (resp', startIO [])
      \<and> HasError (Diagnostics resp')
      \<and> State resp' = State emptyResponse
      \<and> NewErrorDiagnostic ''Invalid project type''
           ''project_type must be one of: elasticsearch, observability, security. Got: bogus''
         \<in> set (Diagnostics resp'))"
proof -
  have clean: "\<not> HasError (Diagnostics emptyResponse)"
    by (simp add: emptyResponse_def HasError_Nil)
  have good: "\<exists>resp'.
      ImportState configured \<lparr>ImportStateRequest_ID = ''proj1,elasticsearch,filt1''\<rparr> emptyResponse
        (startIO []) = Some (resp', startIO [])
      \<and> \<not> HasError (Diagnostics resp')
      \<and> Raw (State resp') =
          Some \<lparr>ID = StringValue ''proj1-filt1'', ProjectID = StringValue ''proj1'',
                ProjectType = StringValue ''elasticsearch'', TrafficFilterID = StringValue ''filt1''\<rparr>"
    using ImportState_parses_key
        [OF clean, where r = configured
           and req = "\<lparr>ImportStateRequest_ID = ''proj1,elasticsearch,filt1''\<rparr>"
           and st = "startIO []" and p = "''proj1''" and t = "''elasticsearch''" and f = "''filt1''"]
      clean
    by auto
  have short: "\<exists>resp'.
      ImportState configured \<lparr>ImportStateRequest_ID = ''proj1,filt1''\<rparr> emptyResponse
        (startIO []) = Some (resp', startIO [])
      \<and> HasError (Diagnostics resp')
      \<and> State resp' = State emptyResponse
      \<and> NewErrorDiagnostic ''Invalid import ID''
           ''Expected format: project_id,project_type,traffic_filter_id. Got: proj1,filt1''
         \<in> set (Diagnostics resp')"
    using ImportState_parses_key
        [OF clean, where r = configured and req = "\<lparr>ImportStateRequest_ID = ''proj1,filt1''\<rparr>"
           and st = "startIO []" and p = "''proj1''" and t = "''filt1''" and f = "[]"]
    by auto
  have bogus: "\<exists>resp'.
      ImportState configured \<lparr>ImportStateRequest_ID = ''proj1,bogus,filt1''\<rparr> emptyResponse
        (startIO []) = Some (resp', startIO [])
      \<and> HasError (Diagnostics resp')
      \<and> State resp' = State emptyResponse
      \<and> NewErrorDiagnostic ''Invalid project type''
           ''project_type must be one of: elasticsearch, observability, security. Got: bogus''
         \<in> set (Diagnostics resp')"
    using ImportState_parses_key
        [OF clean, where r = configured and req = "\<lparr>ImportStateRequest_ID = ''proj1,bogus,filt1''\<rparr>"
           and st = "startIO []" and p = "''proj1''" and t = "''bogus''" and f = "''filt1''"]
    by auto
  from good short bogus show ?thesis
    by simp
qed

text \<open>
  The claim asks for three non-empty pieces. The key \<open>,security,\<close> has an empty project id
  and an empty filter id, and it is imported without a diagnostic.
\<close>

theorem ImportState_empty_components_counterexample:
  "Split '',security,'' CHR '','' = [[], ''security'', []]
   \<and> map_option (Diagnostics \<circ> fst)
        (ImportState configured \<lparr>ImportStateRequest_ID = '',security,''\<rparr> emptyResponse (startIO []))
       = Some []
   \<and> map_option (Raw \<circ> State \<circ> fst)
        (ImportState configured \<lparr>ImportStateRequest_ID = '',security,''\<rparr> emptyResponse (startIO []))
       = Some (Some \<lparr>ID = StringValue ''-'', ProjectID = StringValue [],
                     ProjectType = StringValue ''security'', TrafficFilterID = StringValue []\<rparr>)"
  by (simp add: ImportState_def emptyResponse_def Let_def)

subsection \<open>The identity of an association\<close>

text \<open>
  Claim C7. The identity that a successful \<open>Create\<close> records is the project id of its plan,
  a hyphen and the filter id of its plan, whatever the two ids and the project type
  are. The project type has no part in it: two successful \<open>Create\<close>s whose plans have the
  same project id and the same filter id record the same identity, of whatever types
  the plans are. The identity that a successful \<open>ImportState\<close> records is the first piece
  of the import key, a hyphen and the last piece, whatever the middle piece is.
\<close>

theorem identity_is_project_hyphen_filter:
  fixes r :: "'w Resource" and r' :: "'v Resource" and ri :: "'u Resource"
    and req :: "modelV0 CreateRequest" and req' :: "modelV0 CreateRequest"
  defines "P \<equiv> ValueString (ProjectID (Get_model (Plan req)))"
    and "F \<equiv> ValueString (TrafficFilterID (Get_model (Plan req)))"
  shows "(Create r req resp st = Some (resp1, st1) \<and> \<not> HasError (Diagnostics resp1) \<longrightarrow>
            map_option ID (Raw (State resp1)) = Some (StringValue (P @ ''-'' @ F)))
         \<and> (Create r req resp st = Some (resp1, st1) \<and> \<not> HasError (Diagnostics resp1)
             \<and> Create r' req' resp' st' = Some (resp2, st2) \<and> \<not> HasError (Diagnostics resp2)
             \<and> ValueString (ProjectID (Get_model (Plan req'))) = P
             \<and> ValueString (TrafficFilterID (Get_model (Plan req'))) = F \<longrightarrow>
            map_option ID (Raw (State resp2)) = map_option ID (Raw (State resp1)))
         \<and> (Split (ImportStateRequest_ID ireq) CHR '','' = [p, t, f]
             \<and> ImportState ri ireq iresp ist = Some (resp3, st3)
             \<and> \<not> HasError (Diagnostics resp3) \<longrightarrow>
            map_option ID (Raw (State resp3)) = Some (StringValue (p @ ''-'' @ f)))"
proof -
  have 1: "map_option ID (Raw (State resp1)) = Some (StringValue (P @ ''-'' @ F))"
    if "Create r req resp st = Some (resp1, st1)" and "\<not> HasError (Diagnostics resp1)"
    using Create_succeeds [OF that] by (simp add: P_def F_def)
  have 2: "map_option ID (Raw (State resp2)) = Some (StringValue (P @ ''-'' @ F))"
    if "Create r' req' resp' st' = Some (resp2, st2)" and "\<not> HasError (Diagnostics resp2)"
      and "ValueString (ProjectID (Get_model (Plan req'))) = P"
      and "ValueString (TrafficFilterID (Get_model (Plan req'))) = F"
    using Create_succeeds [OF that(1,2)] that(3,4) by simp
  have 3: "map_option ID (Raw (State resp3)) = Some (StringValue (p @ ''-'' @ f))"
    if parts: "Split (ImportStateRequest_ID ireq) CHR '','' = [p, t, f]"
      and "ImportState ri ireq iresp ist = Some (resp3, st3)" and "\<not> HasError (Diagnostics resp3)"
    using that(2,3) unfolding ImportState_parts [OF parts]
    by (auto simp: HasError_AddError split: if_splits)
  show ?thesis
    by (intro conjI impI; elim conjE) (simp_all add: 1 2 3)
qed

text \<open>
  The same ids under the three project types, created and imported, and a project id
  that holds a comma.
\<close>

theorem identity_is_project_hyphen_filter_witness:
  "map_option (ID \<circ> the \<circ> Raw \<circ> State \<circ> fst)
     (Create configured \<lparr>Plan = decoded (planned ''proj'' ''security'' ''C'')\<rparr> emptyResponse
        (startIO [serverProject ''proj'' (Some [''A'', ''B''])]))
     = Some (StringValue ''proj-C'')
   \<and> map_option (ID \<circ> the \<circ> Raw \<circ> State \<circ> fst)
     (Create configured \<lparr>Plan = decoded (planned ''proj'' ''elasticsearch'' ''C'')\<rparr> emptyResponse
        (startIO [serverProject ''proj'' (Some [''C''])]))
     = Some (StringValue ''proj-C'')
   \<and> map_option (ID \<circ> the \<circ> Raw \<circ> State \<circ> fst)
     (ImportState configured \<lparr>ImportStateRequest_ID = ''proj,observability,C''\<rparr> emptyResponse
        (startIO []))
     = Some (StringValue ''proj-C'')
   \<and> map_option (ID \<circ> the \<circ> Raw \<circ> State \<circ> fst)
     (Create configured \<lparr>Plan = decoded (planned ''a,b'' ''observability'' ''C'')\<rparr> emptyResponse
        (startIO [serverProject ''a,b'' (Some [''C''])]))
     = Some (StringValue ''a,b-C'')"
proof -
  let ?req1 = "\<lparr>Plan = decoded (planned ''proj'' ''security'' ''C'')\<rparr>"
  let ?req2 = "\<lparr>Plan = decoded (planned ''proj'' ''elasticsearch'' ''C'')\<rparr>"
  let ?req3 = "\<lparr>Plan = decoded (planned ''a,b'' ''observability'' ''C'')\<rparr>"
  let ?ireq = "\<lparr>ImportStateRequest_ID = ''proj,observability,C''\<rparr>"
  let ?resp1 = "\<lparr>State = \<lparr>Raw = Some (association ''proj'' ''security'' ''C'')\<rparr>, Diagnostics = []\<rparr>"
  let ?resp2 = "\<lparr>State = \<lparr>Raw = Some (association ''proj'' ''elasticsearch'' ''C'')\<rparr>, Diagnostics = []\<rparr>"
  let ?resp3 = "\<lparr>State = \<lparr>Raw = Some (association ''proj'' ''observability'' ''C'')\<rparr>, Diagnostics = []\<rparr>"
  let ?resp4 = "\<lparr>State = \<lparr>Raw = Some (association ''a,b'' ''observability'' ''C'')\<rparr>, Diagnostics = []\<rparr>"
  let ?st1 = "\<lparr>world = [serverProject ''proj'' (Some [''A'', ''B'', ''C'']),
                   serverProject ''proj'' (Some [''A'', ''B''])],
          calls = [GetSecurityProject ''proj'',
                   PatchSecurityProject ''proj''
                     \<lparr>patch_TrafficFilters = Some [\<lparr>tf_Id = ''A''\<rparr>, \<lparr>tf_Id = ''B''\<rparr>, \<lparr>tf_Id = ''C''\<rparr>]\<rparr>]\<rparr>"
  let ?st2 = "\<lparr>world = [serverProject ''proj'' (Some [''C''])],
          calls = [GetElasticsearchProject ''proj'']\<rparr>"
  let ?st4 = "\<lparr>world = [serverProject ''a,b'' (Some [''C''])],
          calls = [GetObservabilityProject ''a,b'']\<rparr>"
  have c1: "Create configured ?req1 emptyResponse
         (startIO [serverProject ''proj'' (Some [''A'', ''B''])]) = Some (?resp1, ?st1)"
    by (simp add: run)
  have c2: "Create configured ?req2 emptyResponse
         (startIO [serverProject ''proj'' (Some [''C''])]) = Some (?resp2, ?st2)"
    by (simp add: run)
  have c4: "Create configured ?req3 emptyResponse
         (startIO [serverProject ''a,b'' (Some [''C''])]) = Some (?resp4, ?st4)"
    by (simp add: run)
  have i: "ImportState configured ?ireq emptyResponse (startIO []) = Some (?resp3, startIO [])"
    by (simp add: ImportState_def emptyResponse_def association_def Let_def)
  have parts: "Split (ImportStateRequest_ID ?ireq) CHR '','' = [''proj'', ''observability'', ''C'']"
    by simp
  have ids: "ValueString (ProjectID (Get_model (Plan \<lparr>Plan = decoded (planned q k ''C'')\<rparr>))) = q"
    "ValueString (TrafficFilterID (Get_model (Plan \<lparr>Plan = decoded (planned q k ''C'')\<rparr>))) = ''C''"
    for q k
    by (simp_all add: decoded_def planned_def)
  have none: "\<not> HasError (Diagnostics \<lparr>State = s, Diagnostics = []\<rparr>)" for s :: "modelV0 State"
    by (simp add: HasError_Nil)
  note first =
    identity_is_project_hyphen_filter
      [where r = configured and req = ?req1 and resp = emptyResponse
         and st = "startIO [serverProject ''proj'' (Some [''A'', ''B''])]"
         and ?resp1.0 = ?resp1 and ?st1.0 = ?st1
         and r' = configured and req' = ?req2 and resp' = emptyResponse
         and st' = "startIO [serverProject ''proj'' (Some [''C''])]"
         and ?resp2.0 = ?resp2 and ?st2.0 = ?st2
         and ri = configured and ireq = ?ireq and iresp = emptyResponse and ist = "startIO []"
         and ?resp3.0 = ?resp3 and ?st3.0 = "startIO []"
         and p = "''proj''" and t = "''observability''" and f = "''C''"]
  note comma =
    identity_is_project_hyphen_filter
      [where r = configured and req = ?req3 and resp = emptyResponse
         and st = "startIO [serverProject ''a,b'' (Some [''C''])]"
         and ?resp1.0 = ?resp4 and ?st1.0 = ?st4
         and r' = configured and req' = ?req3 and resp' = emptyResponse
         and st' = "startIO [serverProject ''a,b'' (Some [''C''])]"
         and ?resp2.0 = ?resp4 and ?st2.0 = ?st4
         and ri = configured and ireq = ?ireq and iresp = emptyResponse and ist = "startIO []"
         and ?resp3.0 = ?resp3 and ?st3.0 = "startIO []"
         and p = "''proj''" and t = "''observability''" and f = "''C''"]
  have a: "map_option ID (Raw (State ?resp1)) = Some (StringValue ''proj-C'')"
    and b: "map_option ID (Raw (State ?resp2)) = map_option ID (Raw (State ?resp1))"
    and c: "map_option ID (Raw (State ?resp3)) = Some (StringValue ''proj-C'')"
    using first c1 c2 i parts none ids by simp_all
  have d: "map_option ID (Raw (State ?resp4)) = Some (StringValue ''a,b-C'')"
    using comma c4 none ids by simp
  from a b c d show ?thesis
    by (simp add: c1 c2 c4 i)
qed

subsection \<open>Delete of the filter entity\<close>

lemma Itoa_500: "Itoa 500 = ''500''"
  by (simp add: Itoa_def digits.simps [of 500] digits.simps [of 50] digits.simps [of 5])

text \<open>
  Claim C8. When the state decodes and the delete call returns a response, \<open>Delete\<close> of the
  filter resource adds no error exactly when the status code of the response is 200,
  204 or 404. For any other status it adds the error \<open>Failed to delete traffic filter\<close>,
  whose detail holds the status code in decimal, the status line and the body of the
  response. It leaves the state to the framework.
\<close>

theorem filter_Delete_tolerates_404:
  fixes r :: "'w Resource"
  defines "ok \<equiv> {200, 204, 404 :: int}"
  assumes "\<not> HasError (Diagnostics resp)" and "\<not> HasError (Get_diags (DeleteRequest_State req))"
    and "client r = Some c"
    and "DeleteTrafficFilterWithResponse c (ValueString (tfm_ID (Get_model (DeleteRequest_State req))))
           (world st) = (Inr deleteResp, w)"
  shows "\<exists>resp'.
           filter_Delete r req resp st =
             Some (resp', \<lparr>world = w,
                            calls = calls st @ [DeleteTrafficFilter
                              (ValueString (tfm_ID (Get_model (DeleteRequest_State req))))]\<rparr>)
           \<and> (\<not> HasError (Diagnostics resp') \<longleftrightarrow> resp_StatusCode deleteResp \<in> ok)
           \<and> State resp' = State resp
           \<and> Diagnostics resp' =
               (if resp_StatusCode deleteResp \<in> ok
                then Append (Diagnostics resp) (Get_diags (DeleteRequest_State req))
                else AddError (Append (Diagnostics resp) (Get_diags (DeleteRequest_State req)))
                       ''Failed to delete traffic filter''
                       (''The API request failed with: '' @ Itoa (resp_StatusCode deleteResp) @ '' ''
                          @ resp_Status deleteResp @ [CHR 0x0A] @ Body deleteResp))
           \<and> (resp_StatusCode deleteResp \<in> ok
               \<or> \<lparr>Severity = SeverityError, Summary = ''Failed to delete traffic filter'',
                    Detail = ''The API request failed with: '' @ Itoa (resp_StatusCode deleteResp) @ '' ''
                        @ resp_Status deleteResp @ [CHR 0x0A] @ Body deleteResp\<rparr>
                  \<in> set (Diagnostics resp'))"
  using assms(2-5) unfolding filter_Delete_def Let_def ok_def
  by (simp add: invoke_def HasError_Append HasError_AddError requestFailed_def
        AddError_mem [unfolded NewErrorDiagnostic_def])

text \<open>A filter that is already gone (404), and a server error (500).\<close>

theorem filter_Delete_tolerates_404_witness:
  "(\<exists>resp'.
      filter_Delete \<lparr>client = Some (serverClient notFoundResponse notFoundResponse)\<rparr>
        \<lparr>DeleteRequest_State = decoded (modelFromResponse
           \<lparr>info_Id = ''f1'', info_Name = ''n'', info_Region = ''aws-eu-west-1'', info_Type = ''ip'',
            info_IncludeByDefault = False, info_Description = None, info_Rules = []\<rparr>)\<rparr>
        emptyResponse (startIO [])
        = Some (resp', \<lparr>world = [], calls = [DeleteTrafficFilter ''f1'']\<rparr>)
      \<and> \<not> HasError (Diagnostics resp'))
   \<and> (\<exists>resp'.
      filter_Delete
        \<lparr>client = Some (serverClient notFoundResponse
                          (statusResponse 500 ''500 Internal Server Error'' ''boom''))\<rparr>
        \<lparr>DeleteRequest_State = decoded (modelFromResponse
           \<lparr>info_Id = ''f1'', info_Name = ''n'', info_Region = ''aws-eu-west-1'', info_Type = ''ip'',
            info_IncludeByDefault = False, info_Description = None, info_Rules = []\<rparr>)\<rparr>
        emptyResponse (startIO [])
        = Some (resp', \<lparr>world = [], calls = [DeleteTrafficFilter ''f1'']\<rparr>)
      \<and> HasError (Diagnostics resp')
      \<and> Diagnostics resp' =
          [\<lparr>Severity = SeverityError, Summary = ''Failed to delete traffic filter'',
            Detail = ''The API request failed with: 500 500 Internal Server Error'' @ [CHR 0x0A] @ ''boom''\<rparr>])"
proof -
  let ?req = "\<lparr>DeleteRequest_State = decoded (modelFromResponse
           \<lparr>info_Id = ''f1'', info_Name = ''n'', info_Region = ''aws-eu-west-1'', info_Type = ''ip'',
            info_IncludeByDefault = False, info_Description = None, info_Rules = []\<rparr>)\<rparr>"
  have clean: "\<not> HasError (Diagnostics emptyResponse)" "\<not> HasError (Get_diags (DeleteRequest_State ?req))"
    by (simp_all add: emptyResponse_def decoded_def HasError_Nil)
  have gone: "\<exists>resp'.
      filter_Delete \<lparr>client = Some (serverClient notFoundResponse notFoundResponse)\<rparr> ?req
        emptyResponse (startIO [])
        = Some (resp', \<lparr>world = [], calls = [DeleteTrafficFilter ''f1'']\<rparr>)
      \<and> \<not> HasError (Diagnostics resp')"
    using filter_Delete_tolerates_404
      [OF clean, where r = "\<lparr>client = Some (serverClient notFoundResponse notFoundResponse)\<rparr>"
         and c = "serverClient notFoundResponse notFoundResponse"
         and st = "startIO []" and deleteResp = notFoundResponse and w = "[]"]
    by (auto simp: serverClient_def startIO_def notFoundResponse_def resp_StatusCode_def
          decoded_def modelFromResponse_def stringValue_def)
  have failed: "\<exists>resp'.
      filter_Delete
        \<lparr>client = Some (serverClient notFoundResponse
                          (statusResponse 500 ''500 Internal Server Error'' ''boom''))\<rparr> ?req
        emptyResponse (startIO [])
        = Some (resp', \<lparr>world = [], calls = [DeleteTrafficFilter ''f1'']\<rparr>)
      \<and> HasError (Diagnostics resp')
      \<and> Diagnostics resp' =
          [\<lparr>Severity = SeverityError, Summary = ''Failed to delete traffic filter'',
            Detail = ''The API request failed with: 500 500 Internal Server Error'' @ [CHR 0x0A] @ ''boom''\<rparr>]"
    using filter_Delete_tolerates_404
      [OF clean, where r = "\<lparr>client = Some (serverClient notFoundResponse
                          (statusResponse 500 ''500 Internal Server Error'' ''boom''))\<rparr>"
         and c = "serverClient notFoundResponse (statusResponse 500 ''500 Internal Server Error'' ''boom'')"
         and st = "startIO []"
         and deleteResp = "statusResponse 500 ''500 Internal Server Error'' ''boom''" and w = "[]"]
    by (auto simp: serverClient_def startIO_def statusResponse_def resp_StatusCode_def resp_Status_def
          decoded_def modelFromResponse_def stringValue_def emptyResponse_def AddError_def
          NewErrorDiagnostic_def Itoa_500)
  from gone failed show ?thesis
    by simp
qed

subsection \<open>A project without a filter list\<close>

lemma GetMembership_answer:
  assumes "GetProject cap projectID (world st) = (res, w)"
  shows "GetMembership cap projectID st =
           (membershipOf (kindName cap) projectID res,
            \<lparr>world = w, calls = calls st @ [GetProjectCall cap projectID]\<rparr>)"
  using assms by (simp add: GetMembership_def invoke_def)

lemma PatchMembership_answer:
  assumes "PatchProject cap projectID \<lparr>patch_TrafficFilters = Some filters\<rparr> (world st) = (res, w)"
  shows "PatchMembership cap projectID filters st =
           (patchAck res,
            \<lparr>world = w,
              calls = calls st @ [PatchProjectCall cap projectID \<lparr>patch_TrafficFilters = Some filters\<rparr>]\<rparr>)"
  using assms by (simp add: PatchMembership_def invoke_def)

lemma membershipOf_empty:
  assumes "JSON200 resp = Some p" and "TrafficFilters p = None \<or> TrafficFilters p = Some []"
    and "\<not> isNotFound (Inr resp)"
  shows "membershipOf name projectID (Inr resp) = ([], [])"
  using assms by (auto simp: membershipOf_def)

text \<open>
  Claim C10. When the read of a project, of any of the three kinds, answers with a
  decoded payload whose filter list is absent, \<open>getProjectTrafficFilters\<close> returns the empty
  membership and no diagnostic, which is also what it returns for a payload whose list
  is present and empty. A \<open>Create\<close> on such a project makes the read and then a patch of
  the same project whose filters are the new filter alone.
\<close>

theorem absent_filters_read_as_empty:
  fixes r :: "'w Resource" and req :: "modelV0 CreateRequest"
  defines "m \<equiv> Get_model (Plan req)"
  defines "P \<equiv> ValueString (ProjectID m)"
    and "T \<equiv> ValueString (ProjectType m)"
    and "F \<equiv> ValueString (TrafficFilterID m)"
  assumes "client r = Some c"
    and "JSON200 resp = Some p" and "TrafficFilters p = None \<or> TrafficFilters p = Some []"
    and "\<not> isNotFound (Inr resp)"
    and "\<not> HasError (Diagnostics cresp)" and "\<not> HasError (Get_diags (Plan req))"
    and "capabilityOf c T = Some cap" and "GetProject cap P (world st') = (Inr resp, w')"
  shows "(GetElasticsearchProjectWithResponse c projectID (world st) = (Inr resp, w) \<longrightarrow>
            getProjectTrafficFilters r projectID ''elasticsearch'' st
              = Some (([], []), \<lparr>world = w, calls = calls st @ [GetElasticsearchProject projectID]\<rparr>))
         \<and> (GetObservabilityProjectWithResponse c projectID (world st) = (Inr resp, w) \<longrightarrow>
            getProjectTrafficFilters r projectID ''observability'' st
              = Some (([], []), \<lparr>world = w, calls = calls st @ [GetObservabilityProject projectID]\<rparr>))
         \<and> (GetSecurityProjectWithResponse c projectID (world st) = (Inr resp, w) \<longrightarrow>
            getProjectTrafficFilters r projectID ''security'' st
              = Some (([], []), \<lparr>world = w, calls = calls st @ [GetSecurityProject projectID]\<rparr>))
         \<and> (\<exists>resp' st2 k.
               Create r req cresp st' = Some (resp', st2)
               \<and> calls st2 = calls st' @ [GetProjectCall cap P, k]
               \<and> patchedProject k = Some P
               \<and> sentFilters k = Some [\<lparr>tf_Id = F\<rparr>])"
proof -
  note e = membershipOf_empty [OF assms(6,7,8)]
  have 1: "GetElasticsearchProjectWithResponse c projectID (world st) = (Inr resp, w) \<longrightarrow>
            getProjectTrafficFilters r projectID ''elasticsearch'' st
              = Some (([], []), \<lparr>world = w, calls = calls st @ [GetElasticsearchProject projectID]\<rparr>)"
    by (simp add: getProjectTrafficFilters_elasticsearch [OF assms(5)] invoke_def e)
  have 2: "GetObservabilityProjectWithResponse c projectID (world st) = (Inr resp, w) \<longrightarrow>
            getProjectTrafficFilters r projectID ''observability'' st
              = Some (([], []), \<lparr>world = w, calls = calls st @ [GetObservabilityProject projectID]\<rparr>)"
    by (simp add: getProjectTrafficFilters_observability [OF assms(5)] invoke_def e)
  have 3: "GetSecurityProjectWithResponse c projectID (world st) = (Inr resp, w) \<longrightarrow>
            getProjectTrafficFilters r projectID ''security'' st
              = Some (([], []), \<lparr>world = w, calls = calls st @ [GetSecurityProject projectID]\<rparr>)"
    by (simp add: getProjectTrafficFilters_security [OF assms(5)] invoke_def e)
  let ?st1 = "\<lparr>world = w', calls = calls st' @ [GetProjectCall cap P]\<rparr>"
  have read: "getProjectTrafficFilters r P T st' = Some (([], []), ?st1)"
    by (simp add: getProjectTrafficFilters_dispatch [OF assms(5,11)]
          GetMembership_answer [OF assms(12)] e)
  obtain pd st2 where p: "PatchMembership cap P [\<lparr>tf_Id = F\<rparr>] ?st1 = (pd, st2)"
    by (cases "PatchMembership cap P [\<lparr>tf_Id = F\<rparr>] ?st1")
  then have patch: "patchProjectTrafficFilters r P T ([] @ [\<lparr>tf_Id = F\<rparr>]) ?st1 = Some (pd, st2)"
    by (simp add: patchProjectTrafficFilters_dispatch [OF assms(5,11)])
  have nf: "\<not> hasFilter [] F"
    by simp
  have "\<exists>resp'. Create r req cresp st' = Some (resp', st2)"
    using Create_fresh [OF assms(9,10) read [unfolded P_def T_def m_def] HasError_Nil
        nf [unfolded F_def m_def] patch [unfolded P_def T_def F_def m_def]]
    by simp
  moreover have "calls st2 = calls ?st1 @ [PatchProjectCall cap P \<lparr>patch_TrafficFilters = Some [\<lparr>tf_Id = F\<rparr>]\<rparr>]"
    using calls_PatchMembership [of cap P "[\<lparr>tf_Id = F\<rparr>]" ?st1] p by simp
  ultimately have 4: "\<exists>resp' st2 k.
               Create r req cresp st' = Some (resp', st2)
               \<and> calls st2 = calls st' @ [GetProjectCall cap P, k]
               \<and> patchedProject k = Some P
               \<and> sentFilters k = Some [\<lparr>tf_Id = F\<rparr>]"
    by (auto simp: capability_calls [OF assms(11)])
  from 1 2 3 4 show ?thesis
    by blast
qed

text \<open>A project of the server with no filter list, read under each kind, and a \<open>Create\<close> on it.\<close>

theorem absent_filters_read_as_empty_witness:
  "getProjectTrafficFilters configured ''proj'' ''elasticsearch'' (startIO [serverProject ''proj'' None])
     = Some (([], []), \<lparr>world = [serverProject ''proj'' None],
                          calls = [] @ [GetElasticsearchProject ''proj'']\<rparr>)
   \<and> getProjectTrafficFilters configured ''proj'' ''observability'' (startIO [serverProject ''proj'' None])
     = Some (([], []), \<lparr>world = [serverProject ''proj'' None],
                          calls = [] @ [GetObservabilityProject ''proj'']\<rparr>)
   \<and> getProjectTrafficFilters configured ''proj'' ''security'' (startIO [serverProject ''proj'' None])
     = Some (([], []), \<lparr>world = [serverProject ''proj'' None],
                          calls = [] @ [GetSecurityProject ''proj'']\<rparr>)
   \<and> (\<exists>resp' st2 k.
         Create configured \<lparr>Plan = decoded (planned ''proj'' ''observability'' ''C'')\<rparr> emptyResponse
           (startIO [serverProject ''proj'' None]) = Some (resp', st2)
         \<and> calls st2 = [] @ [GetObservabilityProject ''proj'', k]
         \<and> patchedProject k = Some ''proj''
         \<and> sentFilters k = Some [\<lparr>tf_Id = ''C''\<rparr>])"
proof -
  let ?c = "serverClient notFoundResponse (statusResponse 204 ''204 No Content'' [])"
  let ?p = "\<lparr>project_Id = ''proj'', project_Name = ''test-project'', TrafficFilters = None\<rparr>"
  let ?w = "[serverProject ''proj'' None]"
  let ?req = "\<lparr>Plan = decoded (planned ''proj'' ''observability'' ''C'')\<rparr>"
  let ?cap = "\<lparr>kindName = ''Observability'',
              GetProject = GetObservabilityProjectWithResponse ?c,
              GetProjectCall = GetObservabilityProject,
              PatchProject = PatchObservabilityProjectWithResponse ?c,
              PatchProjectCall = PatchObservabilityProject\<rparr>"
  have h1: "client configured = Some ?c"
    by (simp add: configured_def)
  have h2: "JSON200 (okResponse ?p) = Some ?p"
    by (simp add: okResponse_def)
  have h3: "TrafficFilters ?p = None \<or> TrafficFilters ?p = Some []"
    by simp
  have h4: "\<not> isNotFound (Inr (okResponse ?p))"
    by (simp add: isNotFound_def okResponse_def)
  have h5: "\<not> HasError (Diagnostics emptyResponse)" "\<not> HasError (Get_diags (Plan ?req))"
    by (simp_all add: emptyResponse_def decoded_def HasError_Nil)
  have h6: "capabilityOf ?c (ValueString (ProjectType (Get_model (Plan ?req)))) = Some ?cap"
    by (simp add: capabilityOf_def decoded_def planned_def)
  have h7: "GetProject ?cap (ValueString (ProjectID (Get_model (Plan ?req)))) (world (startIO ?w))
              = (Inr (okResponse ?p), ?w)"
    by (simp add: serverClient_def serverGet_def startIO_def serverProject_def decoded_def planned_def)
  have g: "GetElasticsearchProjectWithResponse ?c ''proj'' (world (startIO ?w)) = (Inr (okResponse ?p), ?w)"
    "GetObservabilityProjectWithResponse ?c ''proj'' (world (startIO ?w)) = (Inr (okResponse ?p), ?w)"
    "GetSecurityProjectWithResponse ?c ''proj'' (world (startIO ?w)) = (Inr (okResponse ?p), ?w)"
    by (simp_all add: serverClient_def serverGet_def startIO_def serverProject_def)
  have s: "calls (startIO ?w) = []"
    by (simp add: startIO_def)
  show ?thesis
    using absent_filters_read_as_empty
      [OF h1 h2 h3 h4 h5 h6 h7, where projectID = "''proj''" and st = "startIO ?w" and w = ?w]
    by (simp only: g s simp_thms) (simp add: decoded_def planned_def)
qed

subsection \<open>Read when the entity is gone\<close>

text \<open>
  Claim C4, as the code has it. \<open>Read\<close> of the filter resource, answered with status 404,
  removes the resource from the state and adds no diagnostic. \<open>Read\<close> of the association,
  when the read of its project is answered with status 404, does not remove the
  resource: it leaves the state as it was and adds the error \<open>Project not found\<close>, whose
  detail names the kind and the id of the project.
\<close>

theorem Read_not_found:
  fixes r :: "'w Resource" and r' :: "'v Resource" and req :: "modelV0 ReadRequest"
  defines "m \<equiv> Get_model (ReadRequest_State req)"
  defines "P \<equiv> ValueString (ProjectID m)"
    and "T \<equiv> ValueString (ProjectType m)"
  assumes "\<not> HasError (Diagnostics fresp)" and "\<not> HasError (Get_diags (ReadRequest_State freq))"
    and "client r = Some c"
    and "GetTrafficFilterWithResponse c (ValueString (tfm_ID (Get_model (ReadRequest_State freq))))
           (world st) = (Inr readResp, w)"
    and "isNotFound (Inr readResp)"
    and "\<not> HasError (Diagnostics resp)" and "\<not> HasError (Get_diags (ReadRequest_State req))"
    and "client r' = Some c'" and "capabilityOf c' T = Some cap"
    and "GetProject cap P (world st') = (Inr projectResp, w')"
    and "isNotFound (Inr projectResp)"
  shows "filter_Read r freq fresp st =
           Some (fresp\<lparr>State := (State fresp)\<lparr>Raw := None\<rparr>,
                   Diagnostics := Append (Diagnostics fresp) (Get_diags (ReadRequest_State freq))\<rparr>,
                 \<lparr>world = w,
                  calls = calls st @ [GetTrafficFilter
                    (ValueString (tfm_ID (Get_model (ReadRequest_State freq))))]\<rparr>)
         \<and> \<not> HasError (Append (Diagnostics fresp) (Get_diags (ReadRequest_State freq)))
         \<and> Read r' req resp st' =
           Some (resp\<lparr>Diagnostics :=
                   Append (Append (Diagnostics resp) (Get_diags (ReadRequest_State req)))
                     [NewErrorDiagnostic ''Project not found''
                        (kindName cap @ '' project '' @ P @ '' not found'')]\<rparr>,
                 \<lparr>world = w', calls = calls st' @ [GetProjectCall cap P]\<rparr>)
         \<and> HasError (Append (Append (Diagnostics resp) (Get_diags (ReadRequest_State req)))
                     [NewErrorDiagnostic ''Project not found''
                        (kindName cap @ '' project '' @ P @ '' not found'')])"
proof -
  have f: "filter_Read r freq fresp st =
           Some (fresp\<lparr>State := (State fresp)\<lparr>Raw := None\<rparr>,
                   Diagnostics := Append (Diagnostics fresp) (Get_diags (ReadRequest_State freq))\<rparr>,
                 \<lparr>world = w,
                  calls = calls st @ [GetTrafficFilter
                    (ValueString (tfm_ID (Get_model (ReadRequest_State freq))))]\<rparr>)"
    using assms(4-8) unfolding filter_Read_def Let_def
    by (simp add: invoke_def HasError_Append isNotFound_def RemoveResource_def)
  let ?d = "[NewErrorDiagnostic ''Project not found'' (kindName cap @ '' project '' @ P @ '' not found'')]"
  have read: "getProjectTrafficFilters r' P T st' =
                Some (([], ?d), \<lparr>world = w', calls = calls st' @ [GetProjectCall cap P]\<rparr>)"
    using assms(14)
    by (simp add: getProjectTrafficFilters_dispatch [OF assms(11,12)]
          GetMembership_answer [OF assms(13)] membershipOf_def)
  have a: "Read r' req resp st' =
           Some (resp\<lparr>Diagnostics :=
                   Append (Append (Diagnostics resp) (Get_diags (ReadRequest_State req))) ?d\<rparr>,
                 \<lparr>world = w', calls = calls st' @ [GetProjectCall cap P]\<rparr>)"
    using Read_failed [OF assms(11,9,10) read [unfolded P_def T_def m_def]]
    by (simp add: HasError_NewErrorDiagnostic P_def m_def)
  from f a assms(4,5) show ?thesis
    by (simp add: HasError_Append HasError_NewErrorDiagnostic del: Append.simps)
qed

text \<open>A filter that is gone, and an association whose project is gone.\<close>

theorem Read_not_found_witness:
  "filter_Read configured
     \<lparr>ReadRequest_State = decoded (modelFromResponse
        \<lparr>info_Id = ''f1'', info_Name = ''n'', info_Region = ''aws-eu-west-1'', info_Type = ''ip'',
         info_IncludeByDefault = False, info_Description = None, info_Rules = []\<rparr>)\<rparr>
     (trackingResponse (modelFromResponse
        \<lparr>info_Id = ''f1'', info_Name = ''n'', info_Region = ''aws-eu-west-1'', info_Type = ''ip'',
         info_IncludeByDefault = False, info_Description = None, info_Rules = []\<rparr>))
     (startIO [])
     = Some (\<lparr>State = \<lparr>Raw = None\<rparr>, Diagnostics = []\<rparr>,
             \<lparr>world = [], calls = [GetTrafficFilter ''f1'']\<rparr>)
   \<and> Read configured \<lparr>ReadRequest_State = decoded (association ''gone'' ''security'' ''F'')\<rparr>
       (trackingResponse (association ''gone'' ''security'' ''F'')) (startIO [])
     = Some (\<lparr>State = \<lparr>Raw = Some (association ''gone'' ''security'' ''F'')\<rparr>,
               Diagnostics = [\<lparr>Severity = SeverityError, Summary = ''Project not found'',
                               Detail = ''Security project gone not found''\<rparr>]\<rparr>,
             \<lparr>world = [], calls = [GetSecurityProject ''gone'']\<rparr>)"
proof -
  let ?c = "serverClient notFoundResponse (statusResponse 204 ''204 No Content'' [])"
  let ?fm = "modelFromResponse
        \<lparr>info_Id = ''f1'', info_Name = ''n'', info_Region = ''aws-eu-west-1'', info_Type = ''ip'',
         info_IncludeByDefault = False, info_Description = None, info_Rules = []\<rparr>"
  let ?freq = "\<lparr>ReadRequest_State = decoded ?fm\<rparr>"
  let ?req = "\<lparr>ReadRequest_State = decoded (association ''gone'' ''security'' ''F'')\<rparr>"
  let ?cap = "\<lparr>kindName = ''Security'',
              GetProject = GetSecurityProjectWithResponse ?c,
              GetProjectCall = GetSecurityProject,
              PatchProject = PatchSecurityProjectWithResponse ?c,
              PatchProjectCall = PatchSecurityProject\<rparr>"
  have f1: "\<not> HasError (Diagnostics (trackingResponse ?fm))"
    and f2: "\<not> HasError (Get_diags (ReadRequest_State ?freq))"
    by (simp_all add: trackingResponse_def decoded_def HasError_Nil)
  have c: "client configured = Some ?c"
    by (simp add: configured_def)
  have f4: "GetTrafficFilterWithResponse ?c (ValueString (tfm_ID (Get_model (ReadRequest_State ?freq))))
              (world (startIO [])) = (Inr notFoundResponse, [])"
    by (simp add: serverClient_def startIO_def)
  have nf: "isNotFound (Inr notFoundResponse)"
    by (simp add: isNotFound_def notFoundResponse_def)
  have a1: "\<not> HasError (Diagnostics (trackingResponse (association ''gone'' ''security'' ''F'')))"
    and a2: "\<not> HasError (Get_diags (ReadRequest_State ?req))"
    by (simp_all add: trackingResponse_def decoded_def HasError_Nil)
  have a4: "capabilityOf ?c (ValueString (ProjectType (Get_model (ReadRequest_State ?req)))) = Some ?cap"
    by (simp add: capabilityOf_def decoded_def association_def)
  have a5: "GetProject ?cap (ValueString (ProjectID (Get_model (ReadRequest_State ?req)))) (world (startIO []))
              = (Inr notFoundResponse, [])"
    by (simp add: serverClient_def serverGet_def startIO_def)
  show ?thesis
    using Read_not_found [OF f1 f2 c f4 nf a1 a2 c a4 a5 nf]
    by (simp add: trackingResponse_def decoded_def association_def startIO_def modelFromResponse_def
          stringValue_def NewErrorDiagnostic_def)
qed

text \<open>
  The claim has every \<open>Read\<close> drop the resource without an error when the entity is not
  found. The server holds no project \<open>gone\<close>, so the read of it is answered with status
  404; \<open>Read\<close> of the association ends with an error and the record still in the state.
\<close>

theorem Read_project_not_found_counterexample:
  "isNotFound (fst (GetSecurityProjectWithResponse
      (serverClient notFoundResponse (statusResponse 204 ''204 No Content'' [])) ''gone'' []))
   \<and> map_option (HasError \<circ> Diagnostics \<circ> fst)
       (Read configured \<lparr>ReadRequest_State = decoded (association ''gone'' ''security'' ''F'')\<rparr>
          (trackingResponse (association ''gone'' ''security'' ''F'')) (startIO []))
       = Some True
   \<and> map_option (Raw \<circ> State \<circ> fst)
       (Read configured \<lparr>ReadRequest_State = decoded (association ''gone'' ''security'' ''F'')\<rparr>
          (trackingResponse (association ''gone'' ''security'' ''F'')) (startIO []))
       = Some (Some (association ''gone'' ''security'' ''F''))"
  by (simp add: run isNotFound_def)

subsection \<open>The three kinds\<close>

lemma membershipOf_kinds:
  "fst (membershipOf n1 projectID res) = fst (membershipOf n2 projectID res)"
  "map Severity (snd (membershipOf n1 projectID res)) = map Severity (snd (membershipOf n2 projectID res))"
  "map Summary (snd (membershipOf n1 projectID res)) = map Summary (snd (membershipOf n2 projectID res))"
  "\<not> isNotFound res \<Longrightarrow> membershipOf n1 projectID res = membershipOf n2 projectID res"
  "isNotFound res \<Longrightarrow> membershipOf n1 projectID res =
     ([], [NewErrorDiagnostic ''Project not found'' (n1 @ '' project '' @ projectID @ '' not found'')])"
  by (auto simp: membershipOf_def isNotFound_def NewErrorDiagnostic_def split: sum.splits option.splits)

text \<open>
  Claim C9, as the code has it. Take any two of the three project types and suppose
  that the two read operations give the same answer, and the two patch operations give
  the same answer. Then the two branches of \<open>getProjectTrafficFilters\<close> return the same
  membership and leave the same state of the server; their diagnostics have the same
  severities and summaries, and are equal unless the answer has status 404, when each
  is the one error \<open>Project not found\<close> whose detail starts with the name of its own kind.
  The membership and the diagnostics are those of \<open>membershipOf\<close>, one function of the
  answer for all kinds. The two branches of \<open>patchProjectTrafficFilters\<close> return the same
  diagnostics, those of \<open>patchAck\<close>, and send the same filters to the same project. The
  branches differ in the operation they call.
\<close>

theorem kinds_agree:
  fixes r :: "'w Resource"
  assumes "client r = Some c"
    and "capabilityOf c T1 = Some cap1" and "capabilityOf c T2 = Some cap2"
    and "GetProject cap1 P (world st) = (res, w)" and "GetProject cap2 P (world st) = (res, w)"
    and "PatchProject cap1 P \<lparr>patch_TrafficFilters = Some fs\<rparr> (world st) = (pres, pw)"
    and "PatchProject cap2 P \<lparr>patch_TrafficFilters = Some fs\<rparr> (world st) = (pres, pw)"
  shows "\<exists>S d1 d2 pd k1 k2.
           getProjectTrafficFilters r P T1 st
             = Some ((S, d1), \<lparr>world = w, calls = calls st @ [GetProjectCall cap1 P]\<rparr>)
           \<and> getProjectTrafficFilters r P T2 st
             = Some ((S, d2), \<lparr>world = w, calls = calls st @ [GetProjectCall cap2 P]\<rparr>)
           \<and> (S, d1) = membershipOf (kindName cap1) P res
           \<and> (S, d2) = membershipOf (kindName cap2) P res
           \<and> map Severity d1 = map Severity d2
           \<and> map Summary d1 = map Summary d2
           \<and> (if isNotFound res
               then d1 = [NewErrorDiagnostic ''Project not found''
                            (kindName cap1 @ '' project '' @ P @ '' not found'')]
                    \<and> d2 = [NewErrorDiagnostic ''Project not found''
                            (kindName cap2 @ '' project '' @ P @ '' not found'')]
               else d1 = d2)
           \<and> patchProjectTrafficFilters r P T1 fs st
             = Some (pd, \<lparr>world = pw, calls = calls st @ [k1]\<rparr>)
           \<and> patchProjectTrafficFilters r P T2 fs st
             = Some (pd, \<lparr>world = pw, calls = calls st @ [k2]\<rparr>)
           \<and> pd = patchAck pres
           \<and> k1 = PatchProjectCall cap1 P \<lparr>patch_TrafficFilters = Some fs\<rparr>
           \<and> k2 = PatchProjectCall cap2 P \<lparr>patch_TrafficFilters = Some fs\<rparr>
           \<and> sentFilters k1 = Some fs \<and> sentFilters k2 = Some fs
           \<and> patchedProject k1 = Some P \<and> patchedProject k2 = Some P"
proof -
  let ?S = "fst (membershipOf (kindName cap1) P res)"
  let ?d1 = "snd (membershipOf (kindName cap1) P res)"
  let ?d2 = "snd (membershipOf (kindName cap2) P res)"
  have g1: "getProjectTrafficFilters r P T1 st
             = Some ((?S, ?d1), \<lparr>world = w, calls = calls st @ [GetProjectCall cap1 P]\<rparr>)"
    by (simp add: getProjectTrafficFilters_dispatch [OF assms(1,2)] GetMembership_answer [OF assms(4)])
  have g2: "getProjectTrafficFilters r P T2 st
             = Some ((?S, ?d2), \<lparr>world = w, calls = calls st @ [GetProjectCall cap2 P]\<rparr>)"
    using membershipOf_kinds(1) [of "kindName cap1" P res "kindName cap2"]
    by (simp add: getProjectTrafficFilters_dispatch [OF assms(1,3)] GetMembership_answer [OF assms(5)])
  have e2: "(?S, ?d2) = membershipOf (kindName cap2) P res"
    using membershipOf_kinds(1) [of "kindName cap1" P res "kindName cap2"]
    by (simp add: prod_eq_iff)
  have d: "if isNotFound res
               then ?d1 = [NewErrorDiagnostic ''Project not found''
                            (kindName cap1 @ '' project '' @ P @ '' not found'')]
                    \<and> ?d2 = [NewErrorDiagnostic ''Project not found''
                            (kindName cap2 @ '' project '' @ P @ '' not found'')]
               else ?d1 = ?d2"
    using membershipOf_kinds(4) [of res "kindName cap1" P "kindName cap2"]
      membershipOf_kinds(5) [of res "kindName cap1" P] membershipOf_kinds(5) [of res "kindName cap2" P]
    by (simp del: append.simps)
  have p1: "patchProjectTrafficFilters r P T1 fs st
             = Some (patchAck pres,
                     \<lparr>world = pw, calls = calls st @ [PatchProjectCall cap1 P \<lparr>patch_TrafficFilters = Some fs\<rparr>]\<rparr>)"
    by (simp add: patchProjectTrafficFilters_dispatch [OF assms(1,2)] PatchMembership_answer [OF assms(6)])
  have p2: "patchProjectTrafficFilters r P T2 fs st
             = Some (patchAck pres,
                     \<lparr>world = pw, calls = calls st @ [PatchProjectCall cap2 P \<lparr>patch_TrafficFilters = Some fs\<rparr>]\<rparr>)"
    by (simp add: patchProjectTrafficFilters_dispatch [OF assms(1,3)] PatchMembership_answer [OF assms(7)])
  show ?thesis
    apply (rule exI [of _ ?S], rule exI [of _ ?d1], rule exI [of _ ?d2], rule exI [of _ "patchAck pres"])
    apply (rule exI [of _ "PatchProjectCall cap1 P \<lparr>patch_TrafficFilters = Some fs\<rparr>"])
    apply (rule exI [of _ "PatchProjectCall cap2 P \<lparr>patch_TrafficFilters = Some fs\<rparr>"])
    using g1 g2 e2 d p1 p2 membershipOf_kinds(2,3) [of "kindName cap1" P res "kindName cap2"]
    by (simp add: capability_calls [OF assms(2)] capability_calls [OF assms(3)] del: append.simps)
qed

text \<open>Observability and security against the server: a project that exists, and one that does not.\<close>

theorem kinds_agree_witness:
  "(\<exists>S d pd.
      getProjectTrafficFilters configured ''proj'' ''observability''
          (startIO [serverProject ''proj'' (Some [''A''])])
        = Some ((S, d), \<lparr>world = [serverProject ''proj'' (Some [''A''])],
                          calls = [] @ [GetObservabilityProject ''proj'']\<rparr>)
      \<and> getProjectTrafficFilters configured ''proj'' ''security''
          (startIO [serverProject ''proj'' (Some [''A''])])
        = Some ((S, d), \<lparr>world = [serverProject ''proj'' (Some [''A''])],
                          calls = [] @ [GetSecurityProject ''proj'']\<rparr>)
      \<and> S = [\<lparr>tf_Id = ''A''\<rparr>] \<and> d = []
      \<and> patchProjectTrafficFilters configured ''proj'' ''observability'' [\<lparr>tf_Id = ''B''\<rparr>]
          (startIO [serverProject ''proj'' (Some [''A''])])
        = Some (pd, \<lparr>world = [serverProject ''proj'' (Some [''B'']), serverProject ''proj'' (Some [''A''])],
                      calls = [] @ [PatchObservabilityProject ''proj''
                                      \<lparr>patch_TrafficFilters = Some [\<lparr>tf_Id = ''B''\<rparr>]\<rparr>]\<rparr>)
      \<and> patchProjectTrafficFilters configured ''proj'' ''security'' [\<lparr>tf_Id = ''B''\<rparr>]
          (startIO [serverProject ''proj'' (Some [''A''])])
        = Some (pd, \<lparr>world = [serverProject ''proj'' (Some [''B'']), serverProject ''proj'' (Some [''A''])],
                      calls = [] @ [PatchSecurityProject ''proj''
                                      \<lparr>patch_TrafficFilters = Some [\<lparr>tf_Id = ''B''\<rparr>]\<rparr>]\<rparr>)
      \<and> pd = [])
   \<and> (\<exists>S d1 d2.
      getProjectTrafficFilters configured ''gone'' ''observability'' (startIO [])
        = Some ((S, d1), \<lparr>world = [], calls = [] @ [GetObservabilityProject ''gone'']\<rparr>)
      \<and> getProjectTrafficFilters configured ''gone'' ''security'' (startIO [])
        = Some ((S, d2), \<lparr>world = [], calls = [] @ [GetSecurityProject ''gone'']\<rparr>)
      \<and> map Severity d1 = map Severity d2
      \<and> map Summary d1 = map Summary d2
      \<and> d1 = [NewErrorDiagnostic ''Project not found'' ''Observability project gone not found'']
      \<and> d2 = [NewErrorDiagnostic ''Project not found'' ''Security project gone not found''])"
proof -
  let ?c = "serverClient notFoundResponse (statusResponse 204 ''204 No Content'' [])"
  let ?o = "\<lparr>kindName = ''Observability'',
              GetProject = GetObservabilityProjectWithResponse ?c,
              GetProjectCall = GetObservabilityProject,
              PatchProject = PatchObservabilityProjectWithResponse ?c,
              PatchProjectCall = PatchObservabilityProject\<rparr>"
  let ?s = "\<lparr>kindName = ''Security'',
              GetProject = GetSecurityProjectWithResponse ?c,
              GetProjectCall = GetSecurityProject,
              PatchProject = PatchSecurityProjectWithResponse ?c,
              PatchProjectCall = PatchSecurityProject\<rparr>"
  let ?w = "[serverProject ''proj'' (Some [''A''])]"
  let ?q = "\<lparr>patch_TrafficFilters = Some [\<lparr>tf_Id = ''B''\<rparr>]\<rparr>"
  have c: "client configured = Some ?c"
    by (simp add: configured_def)
  have o: "capabilityOf ?c ''observability'' = Some ?o" and s: "capabilityOf ?c ''security'' = Some ?s"
    by (simp_all add: capabilityOf_def)
  have go: "GetProject ?o ''proj'' (world (startIO ?w)) = (Inr (okResponse (snd (serverProject ''proj'' (Some [''A''])))), ?w)"
    and gs: "GetProject ?s ''proj'' (world (startIO ?w)) = (Inr (okResponse (snd (serverProject ''proj'' (Some [''A''])))), ?w)"
    by (simp_all add: serverClient_def serverGet_def startIO_def serverProject_def)
  have po: "PatchProject ?o ''proj'' ?q (world (startIO ?w))
              = (Inr (okResponse (snd (serverProject ''proj'' (Some [''B''])))),
                 [serverProject ''proj'' (Some [''B'']), serverProject ''proj'' (Some [''A''])])"
    and ps: "PatchProject ?s ''proj'' ?q (world (startIO ?w))
              = (Inr (okResponse (snd (serverProject ''proj'' (Some [''B''])))),
                 [serverProject ''proj'' (Some [''B'']), serverProject ''proj'' (Some [''A''])])"
    by (simp_all add: serverClient_def serverPatch_def startIO_def serverProject_def)
  have go': "GetProject ?o ''gone'' (world (startIO [])) = (Inr notFoundResponse, [])"
    and gs': "GetProject ?s ''gone'' (world (startIO [])) = (Inr notFoundResponse, [])"
    by (simp_all add: serverClient_def serverGet_def startIO_def)
  have po': "PatchProject ?o ''gone'' ?q (world (startIO [])) = (Inr notFoundResponse, [])"
    and ps': "PatchProject ?s ''gone'' ?q (world (startIO [])) = (Inr notFoundResponse, [])"
    by (simp_all add: serverClient_def serverPatch_def startIO_def)
  have found: "\<exists>S d pd.
      getProjectTrafficFilters configured ''proj'' ''observability'' (startIO ?w)
        = Some ((S, d), \<lparr>world = ?w, calls = [] @ [GetObservabilityProject ''proj'']\<rparr>)
      \<and> getProjectTrafficFilters configured ''proj'' ''security'' (startIO ?w)
        = Some ((S, d), \<lparr>world = ?w, calls = [] @ [GetSecurityProject ''proj'']\<rparr>)
      \<and> S = [\<lparr>tf_Id = ''A''\<rparr>] \<and> d = []
      \<and> patchProjectTrafficFilters configured ''proj'' ''observability'' [\<lparr>tf_Id = ''B''\<rparr>] (startIO ?w)
        = Some (pd, \<lparr>world = [serverProject ''proj'' (Some [''B'']), serverProject ''proj'' (Some [''A''])],
                      calls = [] @ [PatchObservabilityProject ''proj'' ?q]\<rparr>)
      \<and> patchProjectTrafficFilters configured ''proj'' ''security'' [\<lparr>tf_Id = ''B''\<rparr>] (startIO ?w)
        = Some (pd, \<lparr>world = [serverProject ''proj'' (Some [''B'']), serverProject ''proj'' (Some [''A''])],
                      calls = [] @ [PatchSecurityProject ''proj'' ?q]\<rparr>)
      \<and> pd = []"
    using kinds_agree [OF c o s go gs po ps]
    by (auto simp: startIO_def membershipOf_def isNotFound_def okResponse_def serverProject_def
          patchAck_def)
  have gone: "\<exists>S d1 d2.
      getProjectTrafficFilters configured ''gone'' ''observability'' (startIO [])
        = Some ((S, d1), \<lparr>world = [], calls = [] @ [GetObservabilityProject ''gone'']\<rparr>)
      \<and> getProjectTrafficFilters configured ''gone'' ''security'' (startIO [])
        = Some ((S, d2), \<lparr>world = [], calls = [] @ [GetSecurityProject ''gone'']\<rparr>)
      \<and> map Severity d1 = map Severity d2
      \<and> map Summary d1 = map Summary d2
      \<and> d1 = [NewErrorDiagnostic ''Project not found'' ''Observability project gone not found'']
      \<and> d2 = [NewErrorDiagnostic ''Project not found'' ''Security project gone not found'']"
    using kinds_agree [OF c o s go' gs' po' ps']
    by (auto simp: startIO_def isNotFound_def notFoundResponse_def)
  from found gone show ?thesis
    by simp
qed

text \<open>
  The claim has the branches compute the same diagnostics. The read of a project that
  does not exist is answered alike for observability and security, and the two
  diagnostics differ in their detail.
\<close>

theorem kinds_differ_in_detail_counterexample:
  "GetObservabilityProjectWithResponse
       (serverClient notFoundResponse (statusResponse 204 ''204 No Content'' [])) ''gone'' []
     = GetSecurityProjectWithResponse
       (serverClient notFoundResponse (statusResponse 204 ''204 No Content'' [])) ''gone'' []
   \<and> map_option (snd \<circ> fst) (getProjectTrafficFilters configured ''gone'' ''observability'' (startIO []))
       = Some [\<lparr>Severity = SeverityError, Summary = ''Project not found'',
                Detail = ''Observability project gone not found''\<rparr>]
   \<and> map_option (snd \<circ> fst) (getProjectTrafficFilters configured ''gone'' ''security'' (startIO []))
       = Some [\<lparr>Severity = SeverityError, Summary = ''Project not found'',
                Detail = ''Security project gone not found''\<rparr>]
   \<and> map_option (snd \<circ> fst) (getProjectTrafficFilters configured ''gone'' ''observability'' (startIO []))
       \<noteq> map_option (snd \<circ> fst) (getProjectTrafficFilters configured ''gone'' ''security'' (startIO []))"
  by (simp add: run)

end
